theory Spec2Isabelle
  imports Complex_Main "HOL-Library.List_Lexorder" "HOL-Library.Char_ord"
begin

section \<open>Python and numpy values\<close>

text \<open>
  The exceptions the modelled code can raise; \<open>ExternalError\<close> is any other exception of
  a library call. \<open>ShapeMismatch\<close> stands for numpy's
  \<open>ValueError\<close> on operands of different shapes; numpy would broadcast some pairs of
  unequal shapes, which is outside this development: every pair of unequal shapes is
  reported as \<open>ShapeMismatch\<close>, and the properties below concern arrays of one shape.
\<close>

datatype py_error =
    FileNotFoundError
  | ValueError
  | ZeroDivisionError
  | KeyError
  | TypeError
  | IndexError
  | FileExistsError
  | IsADirectoryError
  | NotADirectoryError
  | ImportError
  | InvalidDicomError
  | AttributeError
  | ShapeMismatch
  | ExternalError string

text \<open>
  A floating-point number is the rational it denotes, or one of the three special values.
  Arithmetic on finite values is exact: the rounding of float32 and float64 operations is
  not modelled. Division follows numpy, which does not raise on a zero divisor but yields
  \<open>nan\<close> or an infinity.
\<close>

datatype npfloat = Fin rat | PosInf | NegInf | NaN

definition np_divide :: "rat \<Rightarrow> rat \<Rightarrow> npfloat" where
  "np_divide a b =
     (if b \<noteq> 0 then Fin (a / b)
      else if a = 0 then NaN
      else if 0 < a then PosInf else NegInf)"

text \<open>The comparison \<open>x >= t\<close> of a float with a finite literal.\<close>

fun float_ge :: "npfloat \<Rightarrow> rat \<Rightarrow> bool" where
  "float_ge (Fin q) t = (t \<le> q)"
| "float_ge PosInf t = True"
| "float_ge NegInf t = False"
| "float_ge NaN t = False"

text \<open>
  Python's \<open>round(x, ndigits)\<close>: to the nearest multiple, ties to the even one. The model
  rounds the exact rational; the code rounds the binary float nearest to it, so where the
  rational is a decimal tie the two can differ by one unit in the last place kept.
\<close>

definition round_half_even :: "rat \<Rightarrow> int" where
  "round_half_even x =
     (let f = \<lfloor>x\<rfloor>; r = x - of_int f
      in if r < 1 / 2 then f
         else if 1 / 2 < r then f + 1
         else if even f then f else f + 1)"

fun py_round :: "npfloat \<Rightarrow> nat \<Rightarrow> npfloat" where
  "py_round (Fin q) ndigits = Fin (of_int (round_half_even (q * 10 ^ ndigits)) / 10 ^ ndigits)"
| "py_round PosInf ndigits = PosInf"
| "py_round NegInf ndigits = NegInf"
| "py_round NaN ndigits = NaN"

text \<open>The values stored in the dictionaries the code builds, and the dictionaries.\<close>

datatype pyval =
    FloatV npfloat
  | IntV int
  | BoolV bool
  | StrV string
  | TupleV "rat list"

type_synonym pydict = "string \<rightharpoonup> pyval"

definition getitem :: "pydict \<Rightarrow> string \<Rightarrow> py_error + pyval" where
  "getitem d k = (case d k of None \<Rightarrow> Inl KeyError | Some v \<Rightarrow> Inr v)"

text \<open>\<open>d[k] >= t\<close> for a float literal \<open>t\<close>.\<close>

fun pyval_ge :: "pyval \<Rightarrow> rat \<Rightarrow> py_error + bool" where
  "pyval_ge (FloatV x) t = Inr (float_ge x t)"
| "pyval_ge (IntV i) t = Inr (t \<le> of_int i)"
| "pyval_ge (BoolV b) t = Inr (t \<le> (if b then 1 else 0))"
| "pyval_ge (StrV s) t = Inl TypeError"
| "pyval_ge (TupleV xs) t = Inl TypeError"

definition item_ge :: "pydict \<Rightarrow> string \<Rightarrow> rat \<Rightarrow> py_error + bool" where
  "item_ge d k t = (case getitem d k of Inl e \<Rightarrow> Inl e | Inr v \<Rightarrow> pyval_ge v t)"

section \<open>Arrays\<close>

text \<open>
  A three-dimensional array (depth, height, width) is a list of slices, each a list of
  rows. Its shape is what remains when the elements are forgotten.
\<close>

type_synonym array3 = "rat list list list"

definition shape_of :: "array3 \<Rightarrow> nat list list" where
  "shape_of a = map (map length) a"

definition flat :: "array3 \<Rightarrow> rat list" where
  "flat a = concat (concat a)"

text \<open>\<open>(a > 0).astype(np.float32)\<close>, flattened.\<close>

definition binarize :: "array3 \<Rightarrow> rat list" where
  "binarize a = map (\<lambda>v. if 0 < v then 1 else 0) (flat a)"

section \<open>metrics.py\<close>

definition smooth_default :: rat where
  "smooth_default = 1 / 10 ^ 7"

definition calculate_dice :: "array3 \<Rightarrow> array3 \<Rightarrow> rat \<Rightarrow> py_error + npfloat" where
  "calculate_dice ground_truth prediction smooth =
     (if shape_of ground_truth \<noteq> shape_of prediction then Inl ShapeMismatch
      else
        let gt = binarize ground_truth;
            pred = binarize prediction;
            intersection = sum_list (map2 (\<lambda>g p. g * p) gt pred);
            gt_size = sum_list gt;
            pred_size = sum_list pred
        in Inr (np_divide (2 * intersection + smooth) (gt_size + pred_size + smooth)))"

definition calculate_iou :: "array3 \<Rightarrow> array3 \<Rightarrow> rat \<Rightarrow> py_error + npfloat" where
  "calculate_iou ground_truth prediction smooth =
     (if shape_of ground_truth \<noteq> shape_of prediction then Inl ShapeMismatch
      else
        let gt = binarize ground_truth;
            pred = binarize prediction;
            intersection = sum_list (map2 (\<lambda>g p. g * p) gt pred);
            union = sum_list gt + sum_list pred - intersection
        in Inr (np_divide (intersection + smooth) (union + smooth)))"

definition calculate_sensitivity :: "array3 \<Rightarrow> array3 \<Rightarrow> rat \<Rightarrow> py_error + npfloat" where
  "calculate_sensitivity ground_truth prediction smooth =
     (if shape_of ground_truth \<noteq> shape_of prediction then Inl ShapeMismatch
      else
        let gt = binarize ground_truth;
            pred = binarize prediction;
            true_positive = sum_list (map2 (\<lambda>g p. g * p) gt pred);
            false_negative = sum_list (map2 (\<lambda>g p. g * (1 - p)) gt pred)
        in Inr (np_divide (true_positive + smooth) (true_positive + false_negative + smooth)))"

definition calculate_specificity :: "array3 \<Rightarrow> array3 \<Rightarrow> rat \<Rightarrow> py_error + npfloat" where
  "calculate_specificity ground_truth prediction smooth =
     (if shape_of ground_truth \<noteq> shape_of prediction then Inl ShapeMismatch
      else
        let gt = binarize ground_truth;
            pred = binarize prediction;
            true_negative = sum_list (map2 (\<lambda>g p. (1 - g) * (1 - p)) gt pred);
            false_positive = sum_list (map2 (\<lambda>g p. (1 - g) * p) gt pred)
        in Inr (np_divide (true_negative + smooth) (true_negative + false_positive + smooth)))"

definition calculate_pixel_accuracy :: "array3 \<Rightarrow> array3 \<Rightarrow> py_error + npfloat" where
  "calculate_pixel_accuracy ground_truth prediction =
     (if shape_of ground_truth \<noteq> shape_of prediction then Inl ShapeMismatch
      else
        let gt = binarize ground_truth;
            pred = binarize prediction;
            correct = length (filter (\<lambda>(g, p). g = p) (zip gt pred));
            total = length gt
        in Inr (np_divide (of_nat correct) (of_nat total)))"

text \<open>\<open>np.sum(mask > 0)\<close>: the number of foreground voxels.\<close>

definition count_foreground :: "array3 \<Rightarrow> nat" where
  "count_foreground msk = length (filter (\<lambda>v. 0 < v) (flat msk))"

definition calculate_volume :: "array3 \<Rightarrow> rat \<times> rat \<times> rat \<Rightarrow> pydict" where
  "calculate_volume msk spacing =
     (let voxel_volume = (case spacing of (z, y, x) \<Rightarrow> z * y * x);
          voxel_count = count_foreground msk;
          volume_mm3 = of_nat voxel_count * voxel_volume;
          volume_ml = volume_mm3 / 1000
      in [''volume_ml'' \<mapsto> FloatV (py_round (Fin volume_ml) 2),
          ''volume_mm3'' \<mapsto> FloatV (py_round (Fin volume_mm3) 2),
          ''voxel_count'' \<mapsto> IntV (int voxel_count)])"

definition default_spacing :: "rat \<times> rat \<times> rat" where
  "default_spacing = (1, 1, 1)"

text \<open>
  The clinical assessment at the end of \<open>calculate_all_metrics\<close>: it reads the entries
  \<open>dice\<close> and \<open>iou\<close> back from the dictionary, after the volume entries were merged in.
\<close>

definition clinical_assessment :: "pydict \<Rightarrow> py_error + pydict" where
  "clinical_assessment metrics =
     (case item_ge metrics ''dice'' (90 / 100) of Inl e \<Rightarrow> Inl e | Inr d90 \<Rightarrow>
      case (if d90 then item_ge metrics ''iou'' (90 / 100) else Inr False) of
        Inl e \<Rightarrow> Inl e | Inr meets \<Rightarrow>
      let metrics = metrics(''meets_clinical_standards'' \<mapsto> BoolV meets) in
      case item_ge metrics ''dice'' (90 / 100) of Inl e \<Rightarrow> Inl e | Inr g90 \<Rightarrow>
      if g90 then Inr (metrics(''quality_grade'' \<mapsto> StrV ''Excellent''))
      else case item_ge metrics ''dice'' (80 / 100) of Inl e \<Rightarrow> Inl e | Inr g80 \<Rightarrow>
      if g80 then Inr (metrics(''quality_grade'' \<mapsto> StrV ''Good''))
      else case item_ge metrics ''dice'' (70 / 100) of Inl e \<Rightarrow> Inl e | Inr g70 \<Rightarrow>
      if g70 then Inr (metrics(''quality_grade'' \<mapsto> StrV ''Fair''))
      else Inr (metrics(''quality_grade'' \<mapsto> StrV ''Poor'')))"

definition calculate_all_metrics ::
  "array3 \<Rightarrow> array3 \<Rightarrow> rat \<times> rat \<times> rat \<Rightarrow> py_error + pydict" where
  "calculate_all_metrics ground_truth prediction spacing =
     (case calculate_dice ground_truth prediction smooth_default of
        Inl e \<Rightarrow> Inl e | Inr dice \<Rightarrow>
      case calculate_iou ground_truth prediction smooth_default of
        Inl e \<Rightarrow> Inl e | Inr iou \<Rightarrow>
      case calculate_sensitivity ground_truth prediction smooth_default of
        Inl e \<Rightarrow> Inl e | Inr sensitivity \<Rightarrow>
      case calculate_specificity ground_truth prediction smooth_default of
        Inl e \<Rightarrow> Inl e | Inr specificity \<Rightarrow>
      case calculate_pixel_accuracy ground_truth prediction of
        Inl e \<Rightarrow> Inl e | Inr pixel_accuracy \<Rightarrow>
      let metrics = [''dice'' \<mapsto> FloatV (py_round dice 6),
                     ''iou'' \<mapsto> FloatV (py_round iou 6),
                     ''sensitivity'' \<mapsto> FloatV (py_round sensitivity 6),
                     ''specificity'' \<mapsto> FloatV (py_round specificity 6),
                     ''pixel_accuracy'' \<mapsto> FloatV (py_round pixel_accuracy 6)];
          volume_metrics = calculate_volume prediction spacing;
          metrics = map_add metrics volume_metrics
      in clinical_assessment metrics)"

text \<open>The grade as a function of the reported dice value.\<close>

definition grade_of :: "npfloat \<Rightarrow> string" where
  "grade_of d = (if float_ge d (9 / 10) then ''Excellent''
     else if float_ge d (8 / 10) then ''Good''
     else if float_ge d (7 / 10) then ''Fair'' else ''Poor'')"

text \<open>Two small arrays of one shape, used as a concrete input.\<close>

definition gt_example :: array3 where
  "gt_example = [[[1, 1], [1, 0]]]"

definition pred_example :: array3 where
  "pred_example = [[[1, 1], [0, 1]]]"

text \<open>The 2x2x2 arrays of the scenario: all ones, and all zeros.\<close>

definition all_ones_222 :: array3 where
  "all_ones_222 = [[[1, 1], [1, 1]], [[1, 1], [1, 1]]]"

definition all_zeros_222 :: array3 where
  "all_zeros_222 = [[[0, 0], [0, 0]], [[0, 0], [0, 0]]]"

section \<open>inference.py: mask clean-up and slice summary\<close>

text \<open>
  \<open>postprocess_mask\<close> is \<open>(mask > 0.5).astype(np.uint8)\<close> and nothing more: the parameter
  \<open>min_volume_voxels\<close> is not read.
\<close>

definition postprocess_mask :: "array3 \<Rightarrow> int \<Rightarrow> array3" where
  "postprocess_mask msk min_volume_voxels =
     map (map (map (\<lambda>v. if 1 / 2 < v then 1 else 0))) msk"

definition default_min_volume_voxels :: int where
  "default_min_volume_voxels = 1000"

text \<open>
  A row of three voxels whose middle one is foreground: one connected component of a
  single voxel.
\<close>

definition lone_voxel :: array3 where
  "lone_voxel = [[[0, 1, 0]]]"

text \<open>Python's \<open>int(x)\<close> on a number: truncation towards zero.\<close>

definition py_int :: "rat \<Rightarrow> int" where
  "py_int q = (if 0 \<le> q then \<lfloor>q\<rfloor> else \<lceil>q\<rceil>)"

text \<open>
  \<open>range(start, stop, step)\<close> for a positive step. Python raises on a zero step; the only
  caller passes \<open>max(1, _)\<close>.
\<close>

function py_range :: "nat \<Rightarrow> nat \<Rightarrow> nat \<Rightarrow> nat list" where
  "py_range i stop step =
     (if 0 < step \<and> i < stop then i # py_range (i + step) stop step else [])"
  by pat_completeness auto
termination
  by (relation "measure (\<lambda>(i, stop, step). stop - i)") auto

declare py_range.simps [simp del]

record slice_record =
  slice_index :: int
  has_liver :: bool
  liver_area :: int

record contours =
  format :: string
  slices :: "slice_record list"

text \<open>
  The body of the loop of \<open>extract_contours\<close> over the indices \<open>range\<close> yields, with the
  list \<open>contours['slices']\<close> built so far.
\<close>

fun contours_loop :: "array3 \<Rightarrow> nat list \<Rightarrow> slice_record list \<Rightarrow> slice_record list" where
  "contours_loop msk [] acc = acc"
| "contours_loop msk (i # rest) acc =
     (if length msk \<le> i then acc
      else
        let slice_mask = msk ! i in
        if sum_list (concat slice_mask) = 0 then contours_loop msk rest acc
        else contours_loop msk rest
          (acc @ [\<lparr>slice_index = int i,
                   has_liver = list_ex (\<lambda>v. v \<noteq> 0) (concat slice_mask),
                   liver_area = py_int (sum_list (concat slice_mask))\<rparr>]))"

definition extract_contours :: "array3 \<Rightarrow> int option \<Rightarrow> py_error + contours" where
  "extract_contours msk num_slices =
     (let depth = int (length msk);
          num_slices = (case num_slices of None \<Rightarrow> depth | Some n \<Rightarrow> n)
      in if num_slices = 0 then Inl ZeroDivisionError
         else
           let step = max 1 (depth div num_slices)
           in Inr \<lparr>format = ''json'',
                   slices = contours_loop msk (py_range 0 (length msk) (nat step)) []\<rparr>)"

text \<open>
  The slice summary as the specification words it: the stride is
  \<open>max(1, depth // num_slices)\<close>; the sampled indices are the multiples of the stride below the
  depth, in increasing order; a sampled slice without foreground voxels is skipped; every
  other sampled slice gives one record with its index, \<open>has_liver = true\<close> and the number of
  its foreground voxels.
\<close>

definition slice_foreground :: "rat list list \<Rightarrow> nat" where
  "slice_foreground slice_mask = length (filter (\<lambda>v. 0 < v) (concat slice_mask))"

definition sampled_indices :: "nat \<Rightarrow> nat \<Rightarrow> nat list" where
  "sampled_indices depth stride = filter (\<lambda>i. i mod stride = 0) [0..<depth]"

definition summarize_spec :: "array3 \<Rightarrow> nat \<Rightarrow> contours" where
  "summarize_spec msk num_slices =
     (let depth = length msk;
          stride = max 1 (depth div num_slices)
      in \<lparr>format = ''json'',
          slices =
            map (\<lambda>i. \<lparr>slice_index = int i, has_liver = True,
                       liver_area = int (slice_foreground (msk ! i))\<rparr>)
              (filter (\<lambda>i. slice_foreground (msk ! i) \<noteq> 0) (sampled_indices depth stride))\<rparr>)"

text \<open>A mask is binary when every voxel is 0 or 1.\<close>

definition binary_mask :: "array3 \<Rightarrow> bool" where
  "binary_mask msk = list_all (\<lambda>v. v = 0 \<or> v = 1) (flat msk)"

text \<open>A binary mask of depth 4 whose slices hold 2, 0, 1 and 3 foreground voxels.\<close>

definition mask_example :: array3 where
  "mask_example = [[[1, 1], [0, 0]], [[0, 0], [0, 0]], [[0, 0], [0, 1]], [[1, 1], [1, 0]]]"

section \<open>Files and directories\<close>

text \<open>
  A path is the list of its components, relative to the working directory; the empty
  path is the working directory itself, a directory unless the file system says
  otherwise. \<open>path_str\<close> is \<open>str(path)\<close>.
\<close>

type_synonym path = "string list"

fun path_str :: "path \<Rightarrow> string" where
  "path_str [] = ''.''"
| "path_str [c] = c"
| "path_str (c # d # rest) = c @ ''/'' @ path_str (d # rest)"

text \<open>
  What a file holds: the bytes of an input file, known only up to equality, or one of the
  three artifacts \<open>save_results\<close> writes.
\<close>

datatype fcontent =
    Bytes nat
  | NpyFile array3
  | ContoursJson contours
  | MetricsJson pydict

datatype fentry = DirEntry | FileEntry fcontent

type_synonym filesystem = "(path \<times> fentry) list"

definition is_file :: "filesystem \<Rightarrow> path \<Rightarrow> bool" where
  "is_file fs p = (case map_of fs p of Some (FileEntry c) \<Rightarrow> True | _ \<Rightarrow> False)"

definition is_dir :: "filesystem \<Rightarrow> path \<Rightarrow> bool" where
  "is_dir fs p =
     (case map_of fs p of
        Some DirEntry \<Rightarrow> True
      | Some (FileEntry c) \<Rightarrow> False
      | None \<Rightarrow> p = [])"

definition read_file :: "filesystem \<Rightarrow> path \<Rightarrow> fcontent option" where
  "read_file fs p = (case map_of fs p of Some (FileEntry c) \<Rightarrow> Some c | _ \<Rightarrow> None)"

text \<open>Storing an entry replaces the one the path had, if any.\<close>

definition put_entry :: "filesystem \<Rightarrow> path \<Rightarrow> fentry \<Rightarrow> filesystem" where
  "put_entry fs p e = (p, e) # filter (\<lambda>(q, _). q \<noteq> p) fs"

text \<open>\<open>sorted(directory.iterdir())\<close>: the entries directly inside a directory, by name.\<close>

definition iterdir_sorted :: "filesystem \<Rightarrow> path \<Rightarrow> path list" where
  "iterdir_sorted fs d = sort (remdups (filter (\<lambda>p. p \<noteq> [] \<and> butlast p = d) (map fst fs)))"

text \<open>\<open>Path.mkdir(exist_ok=True)\<close>, without \<open>parents\<close>.\<close>

definition mkdir_exist_ok :: "filesystem \<Rightarrow> path \<Rightarrow> py_error + filesystem" where
  "mkdir_exist_ok fs p =
     (if is_dir fs p then Inr fs
      else if is_file fs p then Inl FileExistsError
      else if is_file fs (butlast p) then Inl NotADirectoryError
      else if \<not> is_dir fs (butlast p) then Inl FileNotFoundError
      else Inr (put_entry fs p DirEntry))"

text \<open>Opening a file for writing and storing the whole content.\<close>

definition write_file :: "filesystem \<Rightarrow> path \<Rightarrow> fcontent \<Rightarrow> py_error + filesystem" where
  "write_file fs p c =
     (if is_dir fs p then Inl IsADirectoryError
      else if is_file fs (butlast p) then Inl NotADirectoryError
      else if \<not> is_dir fs (butlast p) then Inl FileNotFoundError
      else Inr (put_entry fs p (FileEntry c)))"

section \<open>Arrays of any rank\<close>

text \<open>
  The pixel data of a DICOM file has two axes or, with several frames, three; stacking
  adds one. Two arrays have one shape when they agree once their elements are forgotten.
\<close>

datatype 'a nd = Scalar 'a | Arr "'a nd list"

definition same_shape_nd :: "'a nd \<Rightarrow> 'a nd \<Rightarrow> bool" where
  "same_shape_nd a b = (map_nd (\<lambda>_. ()) a = map_nd (\<lambda>_. ()) b)"

text \<open>\<open>np.stack(slices, axis=0)\<close>: it raises on no array and on arrays of different shapes.\<close>

definition np_stack :: "'a nd list \<Rightarrow> py_error + 'a nd" where
  "np_stack xs =
     (case xs of
        [] \<Rightarrow> Inl ValueError
      | x # rest \<Rightarrow> if list_all (same_shape_nd x) rest then Inr (Arr xs) else Inl ValueError)"

section \<open>preprocessing.py\<close>

definition normalize_hounsfield_units :: "rat nd \<Rightarrow> rat \<Rightarrow> rat \<Rightarrow> npfloat nd" where
  "normalize_hounsfield_units volume window_center window_width =
     (let min_hu = window_center - window_width / 2;
          max_hu = window_center + window_width / 2
      in map_nd (\<lambda>v. np_divide (min (max v min_hu) max_hu - min_hu) (max_hu - min_hu)) volume)"

text \<open>The fields of \<open>DicomPreprocessor\<close>, and the values its constructor defaults to.\<close>

record dicom_preprocessor =
  target_spacing :: "rat \<times> rat \<times> rat"
  window_center :: rat
  window_width :: rat

definition default_preprocessor :: dicom_preprocessor where
  "default_preprocessor =
     \<lparr>target_spacing = (3 / 2, 1, 1), window_center = 40, window_width = 400\<rparr>"

text \<open>
  What the code reads of a pydicom dataset. An attribute the dataset lacks is \<open>None\<close>;
  reading \<open>pixel_array\<close> decodes the pixel data and can raise.
\<close>

record dataset =
  pixel_array :: "py_error + rat nd"
  RescaleSlope :: "rat option"
  RescaleIntercept :: "rat option"
  PatientID :: "string option"
  StudyDate :: "string option"
  Modality :: "string option"
  Rows :: "int option"
  Columns :: "int option"
  PixelSpacing :: "rat list option"
  SliceThickness :: "rat option"
  WindowCenter :: "rat option"
  WindowWidth :: "rat option"

text \<open>
  The metadata dictionary. A field is \<open>None\<close> when the dictionary has no such key: the
  loader sets all eight, \<open>segment_from_numpy\<close> builds one with the key \<open>spacing\<close> alone.
\<close>

record metadata =
  md_patient_id :: "string option"
  md_study_date :: "string option"
  md_modality :: "string option"
  md_rows :: "int option"
  md_columns :: "int option"
  md_spacing :: "(rat \<times> rat \<times> rat) option"
  md_window_center :: "rat option"
  md_window_width :: "rat option"

definition getattr :: "'a option \<Rightarrow> 'a \<Rightarrow> 'a" where
  "getattr attribute fallback = (case attribute of None \<Rightarrow> fallback | Some v \<Rightarrow> v)"

definition extract_metadata :: "dicom_preprocessor \<Rightarrow> dataset \<Rightarrow> py_error + metadata" where
  "extract_metadata self dicom_dataset =
     (let pixel_spacing = getattr (PixelSpacing dicom_dataset) [1, 1];
          slice_thickness = getattr (SliceThickness dicom_dataset) 1
      in if length pixel_spacing < 2 then Inl IndexError
         else Inr
           \<lparr>md_patient_id = Some (getattr (PatientID dicom_dataset) ''UNKNOWN''),
            md_study_date = Some (getattr (StudyDate dicom_dataset) ''''),
            md_modality = Some (getattr (Modality dicom_dataset) ''CT''),
            md_rows = Some (getattr (Rows dicom_dataset) 512),
            md_columns = Some (getattr (Columns dicom_dataset) 512),
            md_spacing = Some (slice_thickness, pixel_spacing ! 0, pixel_spacing ! 1),
            md_window_center = Some (getattr (WindowCenter dicom_dataset) (window_center self)),
            md_window_width = Some (getattr (WindowWidth dicom_dataset) (window_width self))\<rparr>)"

definition create_mock_metadata :: "dicom_preprocessor \<Rightarrow> metadata" where
  "create_mock_metadata self =
     \<lparr>md_patient_id = Some ''MOCK_PATIENT'',
      md_study_date = Some ''20240101'',
      md_modality = Some ''CT'',
      md_rows = Some 512,
      md_columns = Some 512,
      md_spacing = Some (3 / 2, 1, 1),
      md_window_center = Some (window_center self),
      md_window_width = Some (window_width self)\<rparr>"

text \<open>
  What a call finds outside the program: the files, pydicom (\<open>None\<close> when importing it
  fails; otherwise what \<open>dcmread\<close> makes of a file's content), and the random volume
  \<open>create_mock_volume\<close> draws.
\<close>

record world =
  files :: filesystem
  pydicom :: "(fcontent \<Rightarrow> py_error + dataset) option"
  mock_volume :: "npfloat nd"

text \<open>Conversion to Hounsfield units, when both rescale attributes are present.\<close>

definition to_hu :: "dataset \<Rightarrow> rat nd \<Rightarrow> rat nd" where
  "to_hu ds pixels =
     (case (RescaleSlope ds, RescaleIntercept ds) of
        (Some slope, Some intercept) \<Rightarrow> map_nd (\<lambda>v. v * slope + intercept) pixels
      | _ \<Rightarrow> pixels)"

text \<open>
  \<open>try: ... except ImportError:\<close> around the body of both loaders: an \<open>ImportError\<close> from
  anywhere in the body is answered with the mock volume and metadata.
\<close>

definition except_import_error ::
  "dicom_preprocessor \<Rightarrow> world \<Rightarrow> py_error + npfloat nd \<times> metadata
     \<Rightarrow> py_error + npfloat nd \<times> metadata" where
  "except_import_error self w body =
     (case body of
        Inl e \<Rightarrow> if e = ImportError then Inr (mock_volume w, create_mock_metadata self) else Inl e
      | Inr r \<Rightarrow> Inr r)"

definition load_single_dicom ::
  "dicom_preprocessor \<Rightarrow> world \<Rightarrow> path \<Rightarrow> py_error + npfloat nd \<times> metadata" where
  "load_single_dicom self w file_path =
     except_import_error self w
       (case pydicom w of
          None \<Rightarrow> Inl ImportError
        | Some dcmread \<Rightarrow>
           (case read_file (files w) file_path of
              None \<Rightarrow> Inl FileNotFoundError
            | Some bytes \<Rightarrow>
               (case dcmread bytes of Inl e \<Rightarrow> Inl e | Inr ds \<Rightarrow>
                case pixel_array ds of Inl e \<Rightarrow> Inl e | Inr pixels \<Rightarrow>
                let volume = to_hu ds pixels in
                case extract_metadata self ds of Inl e \<Rightarrow> Inl e | Inr md \<Rightarrow>
                Inr (normalize_hounsfield_units volume (window_center self) (window_width self),
                     md))))"

text \<open>
  The first loop of \<open>load_dicom_series\<close>: a regular file that \<open>dcmread\<close> accepts is kept; one
  that raises \<open>InvalidDicomError\<close> or \<open>AttributeError\<close> is skipped; any other exception
  leaves the loop.
\<close>

fun find_dicom_files ::
  "(fcontent \<Rightarrow> py_error + dataset) \<Rightarrow> filesystem \<Rightarrow> path list \<Rightarrow> path list
     \<Rightarrow> py_error + path list" where
  "find_dicom_files dcmread fs [] dicom_files = Inr dicom_files"
| "find_dicom_files dcmread fs (file # rest) dicom_files =
     (case read_file fs file of
        None \<Rightarrow> find_dicom_files dcmread fs rest dicom_files
      | Some bytes \<Rightarrow>
         (case dcmread bytes of
            Inr ds \<Rightarrow> find_dicom_files dcmread fs rest (dicom_files @ [file])
          | Inl e \<Rightarrow>
             if e = InvalidDicomError \<or> e = AttributeError
             then find_dicom_files dcmread fs rest dicom_files
             else Inl e))"

text \<open>The second loop: every kept file is read again, in full, and converted.\<close>

fun load_slices ::
  "(fcontent \<Rightarrow> py_error + dataset) \<Rightarrow> filesystem \<Rightarrow> path list \<Rightarrow> rat nd list
     \<Rightarrow> py_error + rat nd list" where
  "load_slices dcmread fs [] hu_slices = Inr hu_slices"
| "load_slices dcmread fs (file # rest) hu_slices =
     (case read_file fs file of
        None \<Rightarrow> Inl FileNotFoundError
      | Some bytes \<Rightarrow>
         (case dcmread bytes of Inl e \<Rightarrow> Inl e | Inr ds \<Rightarrow>
          case pixel_array ds of Inl e \<Rightarrow> Inl e | Inr pixels \<Rightarrow>
          load_slices dcmread fs rest (hu_slices @ [to_hu ds pixels])))"

definition load_dicom_series ::
  "dicom_preprocessor \<Rightarrow> world \<Rightarrow> path \<Rightarrow> py_error + npfloat nd \<times> metadata" where
  "load_dicom_series self w directory =
     except_import_error self w
       (case pydicom w of
          None \<Rightarrow> Inl ImportError
        | Some dcmread \<Rightarrow>
           (case find_dicom_files dcmread (files w) (iterdir_sorted (files w) directory) [] of
              Inl e \<Rightarrow> Inl e
            | Inr dicom_files \<Rightarrow>
               (case dicom_files of
                  [] \<Rightarrow> Inl ValueError
                | first # _ \<Rightarrow>
                   (case read_file (files w) first of
                      None \<Rightarrow> Inl FileNotFoundError
                    | Some bytes \<Rightarrow>
                       (case dcmread bytes of Inl e \<Rightarrow> Inl e | Inr first_ds \<Rightarrow>
                        case extract_metadata self first_ds of Inl e \<Rightarrow> Inl e | Inr md \<Rightarrow>
                        case load_slices dcmread (files w) dicom_files [] of
                          Inl e \<Rightarrow> Inl e | Inr hu_slices \<Rightarrow>
                        case np_stack hu_slices of Inl e \<Rightarrow> Inl e | Inr volume \<Rightarrow>
                        Inr (normalize_hounsfield_units volume
                               (window_center self) (window_width self), md))))))"

definition load_dicom ::
  "dicom_preprocessor \<Rightarrow> world \<Rightarrow> path \<Rightarrow> py_error + npfloat nd \<times> metadata" where
  "load_dicom self w p =
     (if is_file (files w) p then load_single_dicom self w p
      else if is_dir (files w) p then load_dicom_series self w p
      else Inl FileNotFoundError)"

section \<open>inference.py: the pipeline\<close>

text \<open>
  The fields of \<open>LiverSegmentationInference\<close>. The model is kept as its \<open>predict\<close> method, a
  function from the volume to a mask that can raise. The constructor sets the preprocessor
  to \<open>default_preprocessor\<close> and creates the output directory.
\<close>

record pipeline =
  model_predict :: "npfloat nd \<Rightarrow> py_error + array3"
  preprocessor :: dicom_preprocessor
  output_dir :: path

definition calculate_volume_metrics :: "array3 \<Rightarrow> metadata \<Rightarrow> pydict" where
  "calculate_volume_metrics msk md =
     (let spacing = getattr (md_spacing md) (1, 1, 1);
          voxel_volume = (case spacing of (z, y, x) \<Rightarrow> z * y * x);
          liver_voxels = count_foreground msk;
          volume_mm3 = of_nat liver_voxels * voxel_volume;
          volume_ml = volume_mm3 / 1000
      in [''volume_ml'' \<mapsto> FloatV (py_round (Fin volume_ml) 2),
          ''volume_mm3'' \<mapsto> FloatV (py_round (Fin volume_mm3) 2),
          ''voxel_count'' \<mapsto> IntV (int liver_voxels),
          ''spacing'' \<mapsto> (case spacing of (z, y, x) \<Rightarrow> TupleV [z, y, x])])"

text \<open>
  \<open>generate_result_id\<close>, given the 32 hexadecimal characters of the UUID that
  \<open>uuid.uuid4()\<close> draws.
\<close>

definition generate_result_id :: "string \<Rightarrow> string" where
  "generate_result_id uuid_hex = ''seg_'' @ take 12 uuid_hex"



text \<open>Two UUIDs of that form.\<close>

definition uuid_a :: string where
  "uuid_a = ''0123456789ab40008000000000000000''"


text \<open>
  \<open>save_results\<close> returns the dictionary of the three locations, or the exception, and the
  files as it leaves them. The result id is joined to the output directory as one path
  component. That is what pathlib does with an id from \<open>generate_result_id\<close>, which has no
  slash; pathlib would split any other id at its slashes, and the properties below are
  stated for generated ids only.
\<close>

definition save_results ::
  "pipeline \<Rightarrow> filesystem \<Rightarrow> string \<Rightarrow> array3 \<Rightarrow> contours \<Rightarrow> pydict
     \<Rightarrow> (py_error + (string \<rightharpoonup> string)) \<times> filesystem" where
  "save_results self fs result_id msk cont metrics =
     (let result_dir = output_dir self @ [result_id] in
      case mkdir_exist_ok fs result_dir of Inl e \<Rightarrow> (Inl e, fs) | Inr fs1 \<Rightarrow>
      let mask_path = result_dir @ [''mask.npy''] in
      case write_file fs1 mask_path (NpyFile msk) of Inl e \<Rightarrow> (Inl e, fs1) | Inr fs2 \<Rightarrow>
      let paths = [''mask_npy'' \<mapsto> path_str mask_path];
          contours_path = result_dir @ [''contours.json''] in
      case write_file fs2 contours_path (ContoursJson cont) of
        Inl e \<Rightarrow> (Inl e, fs2) | Inr fs3 \<Rightarrow>
      let paths = paths(''contours_json'' \<mapsto> path_str contours_path);
          metrics_path = result_dir @ [''metrics.json''] in
      case write_file fs3 metrics_path (MetricsJson metrics) of
        Inl e \<Rightarrow> (Inl e, fs3) | Inr fs4 \<Rightarrow>
      (Inr (paths(''metrics_json'' \<mapsto> path_str metrics_path)), fs4))"

text \<open>The values of the dictionary a \<open>segment_\<close> call returns, and that dictionary.\<close>

datatype resval =
    RStr string
  | RArray array3
  | RContours contours
  | RMetrics pydict
  | RInt int
  | RPaths "string \<rightharpoonup> string"
  | RMeta metadata

type_synonym result = "string \<rightharpoonup> resval"

text \<open>The successive readings of \<open>time.time()\<close> in one call, in seconds.\<close>

record clock =
  start_time :: rat
  inference_start :: rat
  inference_end :: rat
  end_time :: rat

definition segment_from_dicom ::
  "pipeline \<Rightarrow> world \<Rightarrow> clock \<Rightarrow> string \<Rightarrow> path \<Rightarrow> array3 option
     \<Rightarrow> (py_error + result) \<times> filesystem" where
  "segment_from_dicom self w clk uuid_hex dicom_path ground_truth =
     (case load_dicom (preprocessor self) w dicom_path of
        Inl e \<Rightarrow> (Inl e, files w) | Inr (volume, md) \<Rightarrow>
      case model_predict self volume of Inl e \<Rightarrow> (Inl e, files w) | Inr predicted \<Rightarrow>
      let inference_time = py_int ((inference_end clk - inference_start clk) * 1000);
          msk = postprocess_mask predicted default_min_volume_voxels in
      case (case ground_truth of
              Some gt \<Rightarrow> calculate_all_metrics gt msk default_spacing
            | None \<Rightarrow> Inr (calculate_volume_metrics msk md)) of
        Inl e \<Rightarrow> (Inl e, files w) | Inr metrics \<Rightarrow>
      case extract_contours msk None of Inl e \<Rightarrow> (Inl e, files w) | Inr cont \<Rightarrow>
      let result_id = generate_result_id uuid_hex in
      case save_results self (files w) result_id msk cont metrics of
        (Inl e, fs') \<Rightarrow> (Inl e, fs')
      | (Inr output_paths, fs') \<Rightarrow>
      let total_time = py_int ((end_time clk - start_time clk) * 1000) in
      (Inr [''result_id'' \<mapsto> RStr result_id,
            ''mask'' \<mapsto> RArray msk,
            ''contours'' \<mapsto> RContours cont,
            ''metrics'' \<mapsto> RMetrics metrics,
            ''inference_time_ms'' \<mapsto> RInt inference_time,
            ''total_time_ms'' \<mapsto> RInt total_time,
            ''output_paths'' \<mapsto> RPaths output_paths,
            ''metadata'' \<mapsto> RMeta md], fs'))"

text \<open>
  \<open>segment_from_numpy\<close> reads the clock twice: on entry and after the contours are
  extracted. It writes no file.
\<close>

definition spacing_only :: "rat \<times> rat \<times> rat \<Rightarrow> metadata" where
  "spacing_only spacing =
     \<lparr>md_patient_id = None, md_study_date = None, md_modality = None, md_rows = None,
      md_columns = None, md_spacing = Some spacing, md_window_center = None,
      md_window_width = None\<rparr>"

definition segment_from_numpy ::
  "pipeline \<Rightarrow> clock \<Rightarrow> rat nd \<Rightarrow> rat \<times> rat \<times> rat \<Rightarrow> py_error + result" where
  "segment_from_numpy self clk volume spacing =
     (let volume = normalize_hounsfield_units volume 40 400 in
      case model_predict self volume of Inl e \<Rightarrow> Inl e | Inr predicted \<Rightarrow>
      let msk = postprocess_mask predicted default_min_volume_voxels;
          metrics = calculate_volume_metrics msk (spacing_only spacing) in
      case extract_contours msk None of Inl e \<Rightarrow> Inl e | Inr cont \<Rightarrow>
      let inference_time = py_int ((end_time clk - start_time clk) * 1000) in
      Inr [''mask'' \<mapsto> RArray msk,
           ''contours'' \<mapsto> RContours cont,
           ''metrics'' \<mapsto> RMetrics metrics,
           ''inference_time_ms'' \<mapsto> RInt inference_time])"

section \<open>A concrete run\<close>

text \<open>
  A pipeline whose model answers every volume with one fixed 1x2x2 mask, a file system
  with a one-file scan whose voxels measure 5 x 0.7 x 0.7 mm, an empty directory and a
  directory that holds a text file and a subdirectory, and a clock.
\<close>

definition example_predict :: "npfloat nd \<Rightarrow> py_error + array3" where
  "example_predict volume = Inr [[[1, 1], [0, 1]]]"

definition example_pipeline :: pipeline where
  "example_pipeline =
     \<lparr>model_predict = example_predict, preprocessor = default_preprocessor,
      output_dir = [''out'']\<rparr>"

definition example_dataset :: dataset where
  "example_dataset =
     \<lparr>pixel_array = Inr (Arr [Arr [Arr [Scalar 0, Scalar 40], Arr [Scalar 240, Scalar 500]]]),
      RescaleSlope = Some 1, RescaleIntercept = Some 0,
      PatientID = None, StudyDate = None, Modality = None, Rows = Some 2, Columns = Some 2,
      PixelSpacing = Some [7 / 10, 7 / 10], SliceThickness = Some 5,
      WindowCenter = None, WindowWidth = None\<rparr>"

definition example_dcmread :: "fcontent \<Rightarrow> py_error + dataset" where
  "example_dcmread c =
     (case c of
        Bytes n \<Rightarrow> if n = 0 then Inr example_dataset else Inl InvalidDicomError
      | _ \<Rightarrow> Inl InvalidDicomError)"

definition example_files :: filesystem where
  "example_files =
     [([''out''], DirEntry),
      ([''scan.dcm''], FileEntry (Bytes 0)),
      ([''empty''], DirEntry),
      ([''mixed''], DirEntry),
      ([''mixed'', ''notes.txt''], FileEntry (Bytes 7)),
      ([''mixed'', ''sub''], DirEntry)]"

definition example_world :: world where
  "example_world =
     \<lparr>files = example_files, pydicom = Some example_dcmread,
      mock_volume = Arr [Arr [Arr [Scalar (Fin 0)]]]\<rparr>"

text \<open>The same world on a machine without pydicom.\<close>

definition example_world_no_pydicom :: world where
  "example_world_no_pydicom = example_world\<lparr>pydicom := None\<rparr>"

text \<open>
  A directory whose only file cannot be opened: \<open>dcmread\<close> raises \<open>PermissionError\<close>, which
  is neither of the two exceptions the loader skips.
\<close>

definition locked_dcmread :: "fcontent \<Rightarrow> py_error + dataset" where
  "locked_dcmread c = Inl (ExternalError ''PermissionError'')"

definition locked_world :: world where
  "locked_world =
     \<lparr>files = [([''locked''], DirEntry), ([''locked'', ''slice.dcm''], FileEntry (Bytes 9))],
      pydicom = Some locked_dcmread,
      mock_volume = Arr [Arr [Arr [Scalar (Fin 0)]]]\<rparr>"

definition example_clock :: clock where
  "example_clock =
     \<lparr>start_time = 10, inference_start = 21 / 2, inference_end = 12, end_time = 25 / 2\<rparr>"

section \<open>Properties of the metrics\<close>

lemma binarize_bits: "x \<in> set (binarize a) \<Longrightarrow> x = 0 \<or> x = 1"
  by (auto simp: binarize_def)

lemma binarize_nonneg: "0 \<le> sum_list (binarize a)"
  by (rule sum_list_nonneg) (auto dest: binarize_bits)

lemma map2_nonneg:
  assumes "\<And>x y. x \<in> set xs \<Longrightarrow> y \<in> set ys \<Longrightarrow> (0::rat) \<le> f x y"
  shows "0 \<le> sum_list (map2 f xs ys)"
  by (rule sum_list_nonneg) (auto dest: set_zip_leftD set_zip_rightD intro: assms)

lemma map2_mult_le:
  assumes "\<And>x. x \<in> set xs \<Longrightarrow> x = 0 \<or> x = (1::rat)" "\<And>y. y \<in> set ys \<Longrightarrow> y = 0 \<or> y = (1::rat)"
  shows "sum_list (map2 (\<lambda>g p. g * p) xs ys) \<le> sum_list xs"
  using assms
proof (induction xs arbitrary: ys)
  case Nil
  then show ?case by simp
next
  case (Cons x xs)
  show ?case
  proof (cases ys)
    case Nil
    have "0 \<le> sum_list (x # xs)"
      by (rule sum_list_nonneg) (use Cons.prems(1) in force)
    with Nil show ?thesis by simp
  next
    case (Cons y ys')
    have "sum_list (map2 (\<lambda>g p. g * p) xs ys') \<le> sum_list xs"
      by (rule Cons.IH) (use Cons.prems Cons in auto)
    moreover have "x * y \<le> x"
      using Cons.prems(1) [of x] Cons.prems(2) [of y] Cons by auto
    ultimately show ?thesis using Cons by simp
  qed
qed

lemma map2_prod_commute:
  "map2 (\<lambda>g p. g * p) xs ys = map2 (\<lambda>g p. g * p) ys (xs :: rat list)"
  by (induction xs ys rule: list_induct2') (simp_all add: mult.commute)

lemma calculate_dice_Fin:
  assumes "shape_of gt = shape_of pred" "0 < s"
  shows "\<exists>q. calculate_dice gt pred s = Inr (Fin q)"
proof -
  have "0 < sum_list (binarize gt) + sum_list (binarize pred) + s"
    using binarize_nonneg [of gt] binarize_nonneg [of pred] assms(2) by linarith
  then show ?thesis
    using assms(1) by (simp add: calculate_dice_def Let_def np_divide_def)
qed

lemma calculate_iou_Fin:
  assumes "shape_of gt = shape_of pred" "0 < s"
  shows "\<exists>q. calculate_iou gt pred s = Inr (Fin q)"
proof -
  have "sum_list (map2 (\<lambda>g p. g * p) (binarize gt) (binarize pred)) \<le> sum_list (binarize gt)"
    by (rule map2_mult_le) (auto dest: binarize_bits)
  then have "0 < sum_list (binarize gt) + sum_list (binarize pred)
      - sum_list (map2 (\<lambda>g p. g * p) (binarize gt) (binarize pred)) + s"
    using binarize_nonneg [of pred] assms(2) by linarith
  then show ?thesis
    using assms(1) by (simp add: calculate_iou_def Let_def np_divide_def)
qed

lemma calculate_sensitivity_Fin:
  assumes "shape_of gt = shape_of pred" "0 < s"
  shows "\<exists>q. calculate_sensitivity gt pred s = Inr (Fin q)"
proof -
  have "0 \<le> sum_list (map2 (\<lambda>g p. g * p) (binarize gt) (binarize pred))"
    by (rule map2_nonneg) (auto dest!: binarize_bits)
  moreover have "0 \<le> sum_list (map2 (\<lambda>g p. g * (1 - p)) (binarize gt) (binarize pred))"
    by (rule map2_nonneg) (auto dest!: binarize_bits)
  ultimately have "0 < sum_list (map2 (\<lambda>g p. g * p) (binarize gt) (binarize pred))
      + sum_list (map2 (\<lambda>g p. g * (1 - p)) (binarize gt) (binarize pred)) + s"
    using assms(2) by linarith
  then show ?thesis
    using assms(1) by (simp add: calculate_sensitivity_def Let_def np_divide_def)
qed

lemma calculate_specificity_Fin:
  assumes "shape_of gt = shape_of pred" "0 < s"
  shows "\<exists>q. calculate_specificity gt pred s = Inr (Fin q)"
proof -
  have "0 \<le> sum_list (map2 (\<lambda>g p. (1 - g) * (1 - p)) (binarize gt) (binarize pred))"
    by (rule map2_nonneg) (auto dest!: binarize_bits)
  moreover have "0 \<le> sum_list (map2 (\<lambda>g p. (1 - g) * p) (binarize gt) (binarize pred))"
    by (rule map2_nonneg) (auto dest!: binarize_bits)
  ultimately have "0 < sum_list (map2 (\<lambda>g p. (1 - g) * (1 - p)) (binarize gt) (binarize pred))
      + sum_list (map2 (\<lambda>g p. (1 - g) * p) (binarize gt) (binarize pred)) + s"
    using assms(2) by linarith
  then show ?thesis
    using assms(1) by (simp add: calculate_specificity_def Let_def np_divide_def)
qed

lemma calculate_pixel_accuracy_Inr:
  assumes "shape_of gt = shape_of pred"
  shows "\<exists>x. calculate_pixel_accuracy gt pred = Inr x"
  using assms by (simp add: calculate_pixel_accuracy_def Let_def)

lemma calculate_pixel_accuracy_Fin:
  assumes "shape_of gt = shape_of pred" "flat gt \<noteq> []"
  shows "\<exists>q. calculate_pixel_accuracy gt pred = Inr (Fin q)"
  using assms by (simp add: calculate_pixel_accuracy_def Let_def np_divide_def binarize_def)

lemma smooth_default_pos: "0 < smooth_default"
  by (simp add: smooth_default_def)


lemma clinical_assessment_Inr:
  assumes "m ''dice'' = Some (FloatV d)" "m ''iou'' = Some (FloatV i)"
  shows "clinical_assessment m =
    Inr (m(''meets_clinical_standards'' \<mapsto> BoolV (float_ge d (9 / 10) \<and> float_ge i (9 / 10)),
           ''quality_grade'' \<mapsto> StrV (grade_of d)))"
  using assms
  by (simp add: clinical_assessment_def item_ge_def getitem_def Let_def grade_of_def)

lemma calculate_volume_keys:
  "calculate_volume p sp ''dice'' = None" "calculate_volume p sp ''iou'' = None"
  by (simp_all add: calculate_volume_def Let_def)

lemma calculate_all_metrics_Inr:
  assumes "calculate_dice gt p smooth_default = Inr d"
    and "calculate_iou gt p smooth_default = Inr i"
    and "calculate_sensitivity gt p smooth_default = Inr se"
    and "calculate_specificity gt p smooth_default = Inr sp"
    and "calculate_pixel_accuracy gt p = Inr pa"
  shows "calculate_all_metrics gt p spacing =
    Inr ((map_add [''dice'' \<mapsto> FloatV (py_round d 6),
                   ''iou'' \<mapsto> FloatV (py_round i 6),
                   ''sensitivity'' \<mapsto> FloatV (py_round se 6),
                   ''specificity'' \<mapsto> FloatV (py_round sp 6),
                   ''pixel_accuracy'' \<mapsto> FloatV (py_round pa 6)]
                  (calculate_volume p spacing))
          (''meets_clinical_standards'' \<mapsto>
              BoolV (float_ge (py_round d 6) (9 / 10) \<and> float_ge (py_round i 6) (9 / 10)),
           ''quality_grade'' \<mapsto> StrV (grade_of (py_round d 6))))"
proof -
  let ?base = "[''dice'' \<mapsto> FloatV (py_round d 6),
                   ''iou'' \<mapsto> FloatV (py_round i 6),
                   ''sensitivity'' \<mapsto> FloatV (py_round se 6),
                   ''specificity'' \<mapsto> FloatV (py_round sp 6),
                   ''pixel_accuracy'' \<mapsto> FloatV (py_round pa 6)]"
  let ?m = "map_add ?base (calculate_volume p spacing)"
  have d: "?m ''dice'' = Some (FloatV (py_round d 6))"
    by (simp add: map_add_def calculate_volume_keys)
  have i: "?m ''iou'' = Some (FloatV (py_round i 6))"
    by (simp add: map_add_def calculate_volume_keys)
  show ?thesis
    unfolding calculate_all_metrics_def assms sum.case Let_def
    by (rule clinical_assessment_Inr [OF d i])
qed

text \<open>
  Claim C1. For ground-truth and prediction arrays of one shape, \<open>calculate_all_metrics\<close>
  returns a dictionary whose entry \<open>quality_grade\<close> is \<open>Excellent\<close> when the reported dice
  is at least 0.90, else \<open>Good\<close> when it is at least 0.80, else \<open>Fair\<close> when it is at least
  0.70, else \<open>Poor\<close>, and whose entry \<open>meets_clinical_standards\<close> is true exactly when the
  reported dice and the reported iou are both at least 0.90.
\<close>

theorem calculate_all_metrics_grading:
  assumes "shape_of ground_truth = shape_of prediction"
  shows "\<exists>metrics dice iou.
     calculate_all_metrics ground_truth prediction spacing = Inr metrics \<and>
     metrics ''dice'' = Some (FloatV (Fin dice)) \<and>
     metrics ''iou'' = Some (FloatV (Fin iou)) \<and>
     metrics ''quality_grade'' = Some (StrV
       (if 90 / 100 \<le> dice then ''Excellent''
        else if 80 / 100 \<le> dice then ''Good''
        else if 70 / 100 \<le> dice then ''Fair'' else ''Poor'')) \<and>
     metrics ''meets_clinical_standards'' = Some (BoolV (90 / 100 \<le> dice \<and> 90 / 100 \<le> iou))"
proof -
  obtain d where d: "calculate_dice ground_truth prediction smooth_default = Inr (Fin d)"
    using calculate_dice_Fin [OF assms smooth_default_pos] by blast
  obtain i where i: "calculate_iou ground_truth prediction smooth_default = Inr (Fin i)"
    using calculate_iou_Fin [OF assms smooth_default_pos] by blast
  obtain se where se: "calculate_sensitivity ground_truth prediction smooth_default = Inr (Fin se)"
    using calculate_sensitivity_Fin [OF assms smooth_default_pos] by blast
  obtain sp where sp: "calculate_specificity ground_truth prediction smooth_default = Inr (Fin sp)"
    using calculate_specificity_Fin [OF assms smooth_default_pos] by blast
  obtain pa where pa: "calculate_pixel_accuracy ground_truth prediction = Inr pa"
    using calculate_pixel_accuracy_Inr [OF assms] by blast
  obtain rd where rd: "py_round (Fin d) 6 = Fin rd"
    unfolding py_round.simps by blast
  obtain ri where ri: "py_round (Fin i) 6 = Fin ri"
    unfolding py_round.simps by blast
  let ?m = "(map_add [''dice'' \<mapsto> FloatV (Fin rd),
                   ''iou'' \<mapsto> FloatV (Fin ri),
                   ''sensitivity'' \<mapsto> FloatV (py_round (Fin se) 6),
                   ''specificity'' \<mapsto> FloatV (py_round (Fin sp) 6),
                   ''pixel_accuracy'' \<mapsto> FloatV (py_round pa 6)]
                  (calculate_volume prediction spacing))
          (''meets_clinical_standards'' \<mapsto>
              BoolV (float_ge (Fin rd) (9 / 10) \<and> float_ge (Fin ri) (9 / 10)),
           ''quality_grade'' \<mapsto> StrV (grade_of (Fin rd)))"
  have "calculate_all_metrics ground_truth prediction spacing = Inr ?m"
    unfolding calculate_all_metrics_Inr [OF d i se sp pa] rd ri ..
  moreover have "?m ''dice'' = Some (FloatV (Fin rd))"
    by (simp add: map_add_def calculate_volume_keys)
  moreover have "?m ''iou'' = Some (FloatV (Fin ri))"
    by (simp add: map_add_def calculate_volume_keys)
  moreover have "?m ''quality_grade'' = Some (StrV
       (if 90 / 100 \<le> rd then ''Excellent''
        else if 80 / 100 \<le> rd then ''Good''
        else if 70 / 100 \<le> rd then ''Fair'' else ''Poor''))"
    by (simp add: grade_of_def)
  moreover have "?m ''meets_clinical_standards'' =
      Some (BoolV (90 / 100 \<le> rd \<and> 90 / 100 \<le> ri))"
    by simp
  ultimately show ?thesis by blast
qed


text \<open>The grading theorem at a concrete pair of arrays.\<close>

theorem calculate_all_metrics_grading_witness:
  "shape_of gt_example = shape_of pred_example \<and>
   (\<exists>metrics dice iou.
     calculate_all_metrics gt_example pred_example (1, 1, 1) = Inr metrics \<and>
     metrics ''dice'' = Some (FloatV (Fin dice)) \<and>
     metrics ''iou'' = Some (FloatV (Fin iou)) \<and>
     metrics ''quality_grade'' = Some (StrV
       (if 90 / 100 \<le> dice then ''Excellent''
        else if 80 / 100 \<le> dice then ''Good''
        else if 70 / 100 \<le> dice then ''Fair'' else ''Poor'')) \<and>
     metrics ''meets_clinical_standards'' = Some (BoolV (90 / 100 \<le> dice \<and> 90 / 100 \<le> iou)))"
proof -
  have s: "shape_of gt_example = shape_of pred_example"
    by (simp add: shape_of_def gt_example_def pred_example_def)
  show ?thesis
    using s calculate_all_metrics_grading [OF s, of "(1, 1, 1)"] by blast
qed


text \<open>
  Claim C10. \<open>calculate_dice\<close> and \<open>calculate_iou\<close> are symmetric in their two arrays,
  exactly, for every smoothing constant (for arrays of different shapes both orders fail
  alike). The proof uses only that addition and multiplication commute.
\<close>

theorem dice_iou_symmetric:
  "calculate_dice a b smooth = calculate_dice b a smooth \<and>
   calculate_iou a b smooth = calculate_iou b a smooth"
proof -
  have m: "map2 (\<lambda>g p. g * p) (binarize a) (binarize b)
      = map2 (\<lambda>g p. g * p) (binarize b) (binarize a)"
    by (rule map2_prod_commute)
  have "calculate_dice a b smooth = calculate_dice b a smooth"
    by (simp add: calculate_dice_def Let_def m add.commute eq_commute [of "shape_of a"])
  moreover have "calculate_iou a b smooth = calculate_iou b a smooth"
    by (simp add: calculate_iou_def Let_def m add.commute eq_commute [of "shape_of a"])
  ultimately show ?thesis ..
qed

text \<open>
  The scenario of claim C7 as the specification states it: the pixel accuracy of the
  all-ones array against the all-zeros array is not 0.5. The two arrays disagree on every
  voxel.
\<close>

theorem pixel_accuracy_scenario_counterexample:
  "calculate_pixel_accuracy all_ones_222 all_zeros_222 \<noteq> Inr (Fin (1 / 2))"
  by (simp add: calculate_pixel_accuracy_def all_ones_222_def all_zeros_222_def
      shape_of_def binarize_def flat_def np_divide_def)

text \<open>
  Claim C7, amended. For nonempty arrays of one shape, all-zero ones included, each of the
  five metric functions returns a finite number: with the default smoothing constant no
  divisor is zero. For the all-ones 2x2x2 array against the all-zeros one, dice, iou and
  sensitivity lie within the smoothing constant of 0, specificity lies within the
  smoothing constant of 1, and pixel accuracy is 0.
\<close>

theorem metrics_never_divide_by_zero:
  assumes "shape_of a = shape_of b" and "flat a \<noteq> []"
  shows "(\<exists>q. calculate_dice a b smooth_default = Inr (Fin q)) \<and>
         (\<exists>q. calculate_iou a b smooth_default = Inr (Fin q)) \<and>
         (\<exists>q. calculate_sensitivity a b smooth_default = Inr (Fin q)) \<and>
         (\<exists>q. calculate_specificity a b smooth_default = Inr (Fin q)) \<and>
         (\<exists>q. calculate_pixel_accuracy a b = Inr (Fin q)) \<and>
         (\<exists>q. calculate_dice all_ones_222 all_zeros_222 smooth_default = Inr (Fin q) \<and>
              \<bar>q\<bar> \<le> smooth_default) \<and>
         (\<exists>q. calculate_iou all_ones_222 all_zeros_222 smooth_default = Inr (Fin q) \<and>
              \<bar>q\<bar> \<le> smooth_default) \<and>
         (\<exists>q. calculate_sensitivity all_ones_222 all_zeros_222 smooth_default = Inr (Fin q) \<and>
              \<bar>q\<bar> \<le> smooth_default) \<and>
         (\<exists>q. calculate_specificity all_ones_222 all_zeros_222 smooth_default = Inr (Fin q) \<and>
              \<bar>q - 1\<bar> \<le> smooth_default) \<and>
         calculate_pixel_accuracy all_ones_222 all_zeros_222 = Inr (Fin 0)"
proof -
  note ex = all_ones_222_def all_zeros_222_def shape_of_def binarize_def flat_def
    np_divide_def smooth_default_def Let_def
  have "calculate_dice all_ones_222 all_zeros_222 smooth_default = Inr (Fin (1 / 80000001))"
    by (simp add: calculate_dice_def ex)
  moreover have "\<bar>1 / 80000001 :: rat\<bar> \<le> smooth_default"
    by (simp add: smooth_default_def)
  ultimately have d: "\<exists>q. calculate_dice all_ones_222 all_zeros_222 smooth_default
      = Inr (Fin q) \<and> \<bar>q\<bar> \<le> smooth_default"
    by blast
  have "calculate_iou all_ones_222 all_zeros_222 smooth_default = Inr (Fin (1 / 80000001))"
    by (simp add: calculate_iou_def ex)
  moreover have "\<bar>1 / 80000001 :: rat\<bar> \<le> smooth_default"
    by (simp add: smooth_default_def)
  ultimately have i: "\<exists>q. calculate_iou all_ones_222 all_zeros_222 smooth_default
      = Inr (Fin q) \<and> \<bar>q\<bar> \<le> smooth_default"
    by blast
  have "calculate_sensitivity all_ones_222 all_zeros_222 smooth_default
      = Inr (Fin (1 / 80000001))"
    by (simp add: calculate_sensitivity_def ex)
  moreover have "\<bar>1 / 80000001 :: rat\<bar> \<le> smooth_default"
    by (simp add: smooth_default_def)
  ultimately have se: "\<exists>q. calculate_sensitivity all_ones_222 all_zeros_222 smooth_default
      = Inr (Fin q) \<and> \<bar>q\<bar> \<le> smooth_default"
    by blast
  have "calculate_specificity all_ones_222 all_zeros_222 smooth_default = Inr (Fin 1)"
    by (simp add: calculate_specificity_def ex)
  moreover have "\<bar>1 - 1 :: rat\<bar> \<le> smooth_default"
    by (simp add: smooth_default_def)
  ultimately have sp: "\<exists>q. calculate_specificity all_ones_222 all_zeros_222 smooth_default
      = Inr (Fin q) \<and> \<bar>q - 1\<bar> \<le> smooth_default"
    by blast
  have pa: "calculate_pixel_accuracy all_ones_222 all_zeros_222 = Inr (Fin 0)"
    by (simp add: calculate_pixel_accuracy_def ex)
  note g = calculate_dice_Fin [OF assms(1) smooth_default_pos]
    calculate_iou_Fin [OF assms(1) smooth_default_pos]
    calculate_sensitivity_Fin [OF assms(1) smooth_default_pos]
    calculate_specificity_Fin [OF assms(1) smooth_default_pos]
    calculate_pixel_accuracy_Fin [OF assms]
  show ?thesis
    by (intro conjI g d i se sp pa)
qed

text \<open>The theorem at two all-zero arrays.\<close>

theorem metrics_never_divide_by_zero_witness:
  "shape_of all_zeros_222 = shape_of all_zeros_222 \<and> flat all_zeros_222 \<noteq> [] \<and>
   (\<exists>q. calculate_dice all_zeros_222 all_zeros_222 smooth_default = Inr (Fin q)) \<and>
   (\<exists>q. calculate_iou all_zeros_222 all_zeros_222 smooth_default = Inr (Fin q)) \<and>
   (\<exists>q. calculate_sensitivity all_zeros_222 all_zeros_222 smooth_default = Inr (Fin q)) \<and>
   (\<exists>q. calculate_specificity all_zeros_222 all_zeros_222 smooth_default = Inr (Fin q)) \<and>
   (\<exists>q. calculate_pixel_accuracy all_zeros_222 all_zeros_222 = Inr (Fin q))"
proof -
  have s: "shape_of all_zeros_222 = shape_of all_zeros_222" ..
  have n: "flat all_zeros_222 \<noteq> []"
    by (simp add: all_zeros_222_def flat_def)
  note t = metrics_never_divide_by_zero [OF s n]
  show ?thesis
    by (intro conjI s n t [THEN conjunct1] t [THEN conjunct2, THEN conjunct1]
        t [THEN conjunct2, THEN conjunct2, THEN conjunct1]
        t [THEN conjunct2, THEN conjunct2, THEN conjunct2, THEN conjunct1]
        t [THEN conjunct2, THEN conjunct2, THEN conjunct2, THEN conjunct2, THEN conjunct1])
qed

section \<open>Properties of the mask clean-up and the slice summary\<close>

lemma postprocess_mask_binary: "binary_mask (postprocess_mask msk k)"
  by (auto simp: postprocess_mask_def binary_mask_def flat_def list_all_iff)

text \<open>
  What \<open>postprocess_mask\<close> does guarantee: every voxel of the result is 1 where the input
  exceeds 0.5 and 0 elsewhere, the result has the shape of the input, and a second
  application changes nothing.
\<close>

theorem postprocess_mask_threshold:
  "postprocess_mask msk k = map (map (map (\<lambda>v. if 1 / 2 < v then 1 else 0))) msk \<and>
   binary_mask (postprocess_mask msk k) \<and>
   shape_of (postprocess_mask msk k) = shape_of msk \<and>
   postprocess_mask (postprocess_mask msk k) k' = postprocess_mask msk k"
proof -
  have "shape_of (postprocess_mask msk k) = shape_of msk"
    by (simp add: postprocess_mask_def shape_of_def comp_def)
  moreover have "postprocess_mask (postprocess_mask msk k) k' = postprocess_mask msk k"
    by (simp add: postprocess_mask_def comp_def)
  moreover have "postprocess_mask msk k = map (map (map (\<lambda>v. if 1 / 2 < v then 1 else 0))) msk"
    by (simp add: postprocess_mask_def)
  ultimately show ?thesis
    using postprocess_mask_binary by blast
qed

text \<open>
  Claim C4, at an input where the code departs from it. \<open>postprocess_mask\<close> returns the lone
  voxel unchanged under the default \<open>min_volume_voxels = 1000\<close>: the connected component of
  one voxel, far below the minimum, is not removed. The result does not depend on
  \<open>min_volume_voxels\<close> at all.
\<close>

theorem postprocess_mask_keeps_small_component:
  "postprocess_mask lone_voxel default_min_volume_voxels = lone_voxel \<and>
   count_foreground lone_voxel = 1 \<and>
   int (count_foreground lone_voxel) < default_min_volume_voxels \<and>
   postprocess_mask msk k = postprocess_mask msk default_min_volume_voxels"
  by (simp add: postprocess_mask_def lone_voxel_def default_min_volume_voxels_def
      count_foreground_def flat_def)

lemma no_multiple_between:
  assumes "step dvd i" "Suc i \<le> j" "j < i + step"
  shows "j mod step \<noteq> 0"
proof
  assume "j mod step = 0"
  then have "step dvd j" by auto
  with assms(1) have "step dvd (j - i)" by (simp add: dvd_diff_nat)
  moreover have "0 < j - i" "j - i < step" using assms by auto
  ultimately show False by (auto dest: dvd_imp_le)
qed

lemma filter_upt_skip:
  assumes "step dvd i" "0 < step"
  shows "filter (\<lambda>j. j mod step = 0) [Suc i..<stop]
       = filter (\<lambda>j. j mod step = 0) [i + step..<stop]"
proof (cases "i + step \<le> stop")
  case True
  have "Suc i \<le> i + step" using assms(2) by simp
  then have "[Suc i..<stop] = [Suc i..<i + step] @ [i + step..<stop]"
    using True by (metis le_Suc_ex upt_add_eq_append)
  moreover have "filter (\<lambda>j. j mod step = 0) [Suc i..<i + step] = []"
    using no_multiple_between [OF assms(1)] by (auto simp: filter_empty_conv)
  ultimately show ?thesis by simp
next
  case False
  then have "filter (\<lambda>j. j mod step = 0) [Suc i..<stop] = []"
    using no_multiple_between [OF assms(1)] by (auto simp: filter_empty_conv)
  with False show ?thesis by simp
qed

lemma py_range_multiples:
  "step dvd i \<Longrightarrow> 0 < step \<Longrightarrow>
   py_range i stop step = filter (\<lambda>j. j mod step = 0) [i..<stop]"
proof (induction i stop step rule: py_range.induct)
  case (1 i stop step)
  show ?case
  proof (cases "i < stop")
    case True
    then have "py_range i stop step = i # py_range (i + step) stop step"
      using "1.prems" by (subst py_range.simps) simp
    also have "py_range (i + step) stop step = filter (\<lambda>j. j mod step = 0) [i + step..<stop]"
      using "1.IH" True "1.prems" by simp
    also have "\<dots> = filter (\<lambda>j. j mod step = 0) [Suc i..<stop]"
      using filter_upt_skip [of step i stop] "1.prems" by simp
    finally show ?thesis
      using True "1.prems" by (simp add: upt_conv_Cons)
  next
    case False
    then have "py_range i stop step = []"
      by (subst py_range.simps) simp
    with False show ?thesis by simp
  qed
qed

lemma binary_sum_count:
  assumes "\<And>v. v \<in> set xs \<Longrightarrow> v = 0 \<or> v = (1::rat)"
  shows "sum_list xs = of_nat (length (filter (\<lambda>v. 0 < v) xs))"
  using assms
proof (induction xs)
  case Nil
  then show ?case by simp
next
  case (Cons a xs)
  have a: "a = 0 \<or> a = 1" using Cons.prems [of a] by simp
  have "sum_list xs = of_nat (length (filter (\<lambda>v. 0 < v) xs))"
    by (rule Cons.IH) (use Cons.prems in simp)
  with a show ?case by auto
qed

lemma binary_slice:
  assumes "binary_mask msk" "i < length msk" "v \<in> set (concat (msk ! i))"
  shows "v = 0 \<or> v = 1"
proof -
  have "v \<in> set (flat msk)"
    using assms(2,3) by (auto simp: flat_def intro!: bexI [of _ "msk ! i"])
  with assms(1) show ?thesis by (simp add: binary_mask_def list_all_iff)
qed

lemma py_int_of_nat: "py_int (of_nat n) = int n"
  by (simp add: py_int_def)

lemma contours_loop_spec:
  assumes "binary_mask msk" "\<And>i. i \<in> set idx \<Longrightarrow> i < length msk"
  shows "contours_loop msk idx acc =
     acc @ map (\<lambda>i. \<lparr>slice_index = int i, has_liver = True,
                       liver_area = int (slice_foreground (msk ! i))\<rparr>)
              (filter (\<lambda>i. slice_foreground (msk ! i) \<noteq> 0) idx)"
  using assms(2)
proof (induction idx arbitrary: acc)
  case Nil
  then show ?case by simp
next
  case (Cons i rest)
  have i: "i < length msk" using Cons.prems by simp
  have s: "sum_list (concat (msk ! i)) = of_nat (slice_foreground (msk ! i))"
    unfolding slice_foreground_def
    by (rule binary_sum_count) (rule binary_slice [OF assms(1) i])
  have "v \<noteq> 0 \<longleftrightarrow> 0 < v" if "v \<in> set (concat (msk ! i))" for v
    using binary_slice [OF assms(1) i that] by auto
  then have e: "list_ex (\<lambda>v. v \<noteq> 0) (concat (msk ! i)) \<longleftrightarrow> slice_foreground (msk ! i) \<noteq> 0"
    unfolding slice_foreground_def list_ex_iff length_0_conv filter_empty_conv by blast
  have IH: "\<And>acc. contours_loop msk rest acc =
     acc @ map (\<lambda>i. \<lparr>slice_index = int i, has_liver = True,
                       liver_area = int (slice_foreground (msk ! i))\<rparr>)
              (filter (\<lambda>i. slice_foreground (msk ! i) \<noteq> 0) rest)"
    by (rule Cons.IH) (use Cons.prems in simp)
  show ?case
    using i by (simp add: Let_def s e IH py_int_of_nat)
qed


lemma stride_nat:
  assumes "0 < n"
  shows "nat (max 1 (int d div n)) = max 1 (d div nat n)"
proof -
  have "int d div n = int (d div nat n)"
    using assms by (simp add: zdiv_int)
  then show ?thesis by (simp add: max_def)
qed

text \<open>
  Claim C8. For a binary three-dimensional mask and a positive \<open>num_slices\<close> (the depth when
  none is given), \<open>extract_contours\<close> returns the summary the specification describes:
  stride \<open>max(1, depth // num_slices)\<close>, the multiples of the stride below the depth in
  increasing order, no record for a visited slice without foreground voxels, and for every
  other visited slice one record with its index, \<open>has_liver = true\<close> and the number of its
  foreground voxels as \<open>liver_area\<close>.
\<close>

theorem extract_contours_summary:
  assumes "binary_mask msk"
    and "n = (case num_slices of None \<Rightarrow> int (length msk) | Some k \<Rightarrow> k)"
    and "0 < n"
  shows "extract_contours msk num_slices = Inr (summarize_spec msk (nat n))"
proof -
  define stride where "stride = max 1 (length msk div nat n)"
  have pos: "0 < stride" by (simp add: stride_def)
  have r: "py_range 0 (length msk) stride = sampled_indices (length msk) stride"
    unfolding sampled_indices_def by (rule py_range_multiples) (use pos in simp_all)
  have b: "i < length msk" if "i \<in> set (sampled_indices (length msk) stride)" for i
    using that by (simp add: sampled_indices_def)
  have "extract_contours msk num_slices =
      Inr \<lparr>format = ''json'', slices = contours_loop msk (py_range 0 (length msk) stride) []\<rparr>"
    using assms(2,3) by (simp add: extract_contours_def Let_def stride_nat stride_def)
  also have "contours_loop msk (py_range 0 (length msk) stride) [] =
      map (\<lambda>i. \<lparr>slice_index = int i, has_liver = True,
                  liver_area = int (slice_foreground (msk ! i))\<rparr>)
        (filter (\<lambda>i. slice_foreground (msk ! i) \<noteq> 0) (sampled_indices (length msk) stride))"
    unfolding r by (simp only: contours_loop_spec [OF assms(1) b] append_Nil)
  finally show ?thesis
    by (simp only: summarize_spec_def Let_def stride_def)
qed

text \<open>The theorem on the example mask of depth 4, sampled with \<open>num_slices = 2\<close>.\<close>

theorem extract_contours_summary_witness:
  "binary_mask mask_example \<and> (0::int) < 2 \<and>
   extract_contours mask_example (Some 2) =
     Inr \<lparr>format = ''json'',
          slices = [\<lparr>slice_index = 0, has_liver = True, liver_area = 2\<rparr>,
                    \<lparr>slice_index = 2, has_liver = True, liver_area = 1\<rparr>]\<rparr>"
proof -
  have b: "binary_mask mask_example"
    by (simp add: binary_mask_def mask_example_def flat_def)
  have s: "summarize_spec mask_example (nat 2) =
     \<lparr>format = ''json'',
      slices = [\<lparr>slice_index = 0, has_liver = True, liver_area = 2\<rparr>,
                \<lparr>slice_index = 2, has_liver = True, liver_area = 1\<rparr>]\<rparr>"
    by code_simp
  show ?thesis
    using b extract_contours_summary [OF b, of 2 "Some 2"] s by simp
qed

section \<open>Properties of the result store\<close>

lemma not_isl_fst: "\<not> isl (fst x) \<Longrightarrow> \<exists>r s. x = (Inr r, s)"
  by (cases x, cases "fst x") auto

lemma not_isl: "\<not> isl x \<Longrightarrow> \<exists>r. x = Inr r"
  by (cases x) auto






















section \<open>Properties of the pipeline\<close>

lemma segment_from_numpy_Inr:
  assumes "segment_from_numpy self clk v sp = Inr res"
  shows "\<exists>predicted cont.
     model_predict self (normalize_hounsfield_units v 40 400) = Inr predicted \<and>
     extract_contours (postprocess_mask predicted default_min_volume_voxels) None = Inr cont \<and>
     res = [''mask'' \<mapsto> RArray (postprocess_mask predicted default_min_volume_voxels),
            ''contours'' \<mapsto> RContours cont,
            ''metrics'' \<mapsto> RMetrics (calculate_volume_metrics
               (postprocess_mask predicted default_min_volume_voxels) (spacing_only sp)),
            ''inference_time_ms'' \<mapsto> RInt (py_int ((end_time clk - start_time clk) * 1000))]"
  using assms
  by (auto simp: segment_from_numpy_def Let_def split: sum.splits)

lemma segment_from_dicom_Inr:
  assumes "segment_from_dicom self w clk u p gt = (Inr res, fs')"
  shows "\<exists>volume md predicted metrics cont paths.
     load_dicom (preprocessor self) w p = Inr (volume, md) \<and>
     model_predict self volume = Inr predicted \<and>
     (case gt of
        Some g \<Rightarrow> calculate_all_metrics g
          (postprocess_mask predicted default_min_volume_voxels) default_spacing
      | None \<Rightarrow> Inr (calculate_volume_metrics
          (postprocess_mask predicted default_min_volume_voxels) md)) = Inr metrics \<and>
     extract_contours (postprocess_mask predicted default_min_volume_voxels) None = Inr cont \<and>
     save_results self (files w) (generate_result_id u)
       (postprocess_mask predicted default_min_volume_voxels) cont metrics = (Inr paths, fs') \<and>
     res = [''result_id'' \<mapsto> RStr (generate_result_id u),
            ''mask'' \<mapsto> RArray (postprocess_mask predicted default_min_volume_voxels),
            ''contours'' \<mapsto> RContours cont,
            ''metrics'' \<mapsto> RMetrics metrics,
            ''inference_time_ms'' \<mapsto>
               RInt (py_int ((inference_end clk - inference_start clk) * 1000)),
            ''total_time_ms'' \<mapsto> RInt (py_int ((end_time clk - start_time clk) * 1000)),
            ''output_paths'' \<mapsto> RPaths paths,
            ''metadata'' \<mapsto> RMeta md]"
proof -
  obtain volume md where l: "load_dicom (preprocessor self) w p = Inr (volume, md)"
    using assms by (auto simp: segment_from_dicom_def split: sum.splits)
  obtain predicted where pr: "model_predict self volume = Inr predicted"
    using assms l by (auto simp: segment_from_dicom_def split: sum.splits)
  let ?msk = "postprocess_mask predicted default_min_volume_voxels"
  obtain metrics where m: "(case gt of
        Some g \<Rightarrow> calculate_all_metrics g ?msk default_spacing
      | None \<Rightarrow> Inr (calculate_volume_metrics ?msk md)) = Inr metrics"
    using assms l pr by (auto simp: segment_from_dicom_def Let_def split: sum.splits)
  obtain cont where c: "extract_contours ?msk None = Inr cont"
    using assms l pr m by (auto simp: segment_from_dicom_def Let_def split: sum.splits)
  obtain paths where s: "save_results self (files w) (generate_result_id u) ?msk cont metrics
      = (Inr paths, fs')"
    using assms l pr m c
    by (auto simp: segment_from_dicom_def Let_def split: sum.splits prod.splits)
  have "res = [''result_id'' \<mapsto> RStr (generate_result_id u),
            ''mask'' \<mapsto> RArray ?msk,
            ''contours'' \<mapsto> RContours cont,
            ''metrics'' \<mapsto> RMetrics metrics,
            ''inference_time_ms'' \<mapsto>
               RInt (py_int ((inference_end clk - inference_start clk) * 1000)),
            ''total_time_ms'' \<mapsto> RInt (py_int ((end_time clk - start_time clk) * 1000)),
            ''output_paths'' \<mapsto> RPaths paths,
            ''metadata'' \<mapsto> RMeta md]"
    using assms l pr m c s by (simp add: segment_from_dicom_def Let_def)
  with l pr m c s show ?thesis by blast
qed

lemma dom_calculate_volume_metrics:
  "dom (calculate_volume_metrics msk md) = {''volume_ml'', ''volume_mm3'', ''voxel_count'', ''spacing''}"
  by (auto simp: calculate_volume_metrics_def Let_def split: prod.splits if_splits)


lemma example_numpy_run:
  "\<exists>res. segment_from_numpy example_pipeline example_clock (Arr []) (2, 1, 1) = Inr res"
proof -
  have "\<not> isl (segment_from_numpy example_pipeline example_clock (Arr []) (2, 1, 1))"
    by code_simp
  then show ?thesis by (rule not_isl)
qed

lemma example_dicom_run:
  "\<exists>res fs'. segment_from_dicom example_pipeline example_world example_clock uuid_a
      [''scan.dcm''] None = (Inr res, fs')"
proof -
  have "\<not> isl (fst (segment_from_dicom example_pipeline example_world example_clock uuid_a
      [''scan.dcm''] None))"
    by code_simp
  then show ?thesis by (rule not_isl_fst)
qed

lemma example_dicom_run_gt:
  "\<exists>res fs'. segment_from_dicom example_pipeline example_world example_clock uuid_a
      [''scan.dcm''] (Some gt_example) = (Inr res, fs')"
proof -
  have "\<not> isl (fst (segment_from_dicom example_pipeline example_world example_clock uuid_a
      [''scan.dcm''] (Some gt_example)))"
    by code_simp
  then show ?thesis by (rule not_isl_fst)
qed

text \<open>
  Claim C2 as the specification states it fails: without a ground truth the metrics
  dictionary has a fourth entry, \<open>spacing\<close>.
\<close>

theorem volume_metrics_spacing_counterexample:
  "\<exists>res m. segment_from_numpy example_pipeline example_clock (Arr []) (2, 1, 1) = Inr res \<and>
     res ''metrics'' = Some (RMetrics m) \<and>
     m ''spacing'' = Some (TupleV [2, 1, 1]) \<and>
     dom m \<noteq> {''volume_ml'', ''volume_mm3'', ''voxel_count''}"
proof -
  obtain res where r: "segment_from_numpy example_pipeline example_clock (Arr []) (2, 1, 1)
      = Inr res"
    using example_numpy_run by blast
  from segment_from_numpy_Inr [OF r] obtain predicted cont where
    e: "res = [''mask'' \<mapsto> RArray (postprocess_mask predicted default_min_volume_voxels),
            ''contours'' \<mapsto> RContours cont,
            ''metrics'' \<mapsto> RMetrics (calculate_volume_metrics
               (postprocess_mask predicted default_min_volume_voxels) (spacing_only (2, 1, 1))),
            ''inference_time_ms'' \<mapsto>
               RInt (py_int ((end_time example_clock - start_time example_clock) * 1000))]"
    by blast
  let ?m = "calculate_volume_metrics
     (postprocess_mask predicted default_min_volume_voxels) (spacing_only (2, 1, 1))"
  have m: "res ''metrics'' = Some (RMetrics ?m)"
    unfolding e by simp
  have s: "?m ''spacing'' = Some (TupleV [2, 1, 1])"
    by (simp add: calculate_volume_metrics_def spacing_only_def getattr_def Let_def)
  have n: "dom ?m \<noteq> {''volume_ml'', ''volume_mm3'', ''voxel_count''}"
  proof
    assume "dom ?m = {''volume_ml'', ''volume_mm3'', ''voxel_count''}"
    moreover have "''spacing'' \<in> dom ?m" using s by (rule domI)
    ultimately have "''spacing'' \<in> {''volume_ml'', ''volume_mm3'', ''voxel_count''}"
      by simp
    then show False by simp
  qed
  show ?thesis
    by (rule exI [of _ res], rule exI [of _ ?m], intro conjI) (rule r, rule m, rule s, rule n)
qed

text \<open>
  Claim C2, amended. Whenever \<open>segment_from_dicom\<close> without a ground truth, or
  \<open>segment_from_numpy\<close>, returns, the metrics dictionary of the result has exactly the four
  keys \<open>volume_ml\<close>, \<open>volume_mm3\<close>, \<open>voxel_count\<close> and \<open>spacing\<close>: no overlap, classification or
  grading entry.
\<close>

theorem no_ground_truth_metrics_fields:
  "(segment_from_dicom self w clk u p None = (Inr res, fs') \<longrightarrow>
      (\<exists>m. res ''metrics'' = Some (RMetrics m) \<and>
           dom m = {''volume_ml'', ''volume_mm3'', ''voxel_count'', ''spacing''})) \<and>
   (segment_from_numpy self clk v sp = Inr res2 \<longrightarrow>
      (\<exists>m. res2 ''metrics'' = Some (RMetrics m) \<and>
           dom m = {''volume_ml'', ''volume_mm3'', ''voxel_count'', ''spacing''}))"
proof (intro conjI impI)
  assume "segment_from_dicom self w clk u p None = (Inr res, fs')"
  from segment_from_dicom_Inr [OF this] obtain md predicted metrics cont paths where
    m: "(case None :: array3 option of
        Some g \<Rightarrow> calculate_all_metrics g
          (postprocess_mask predicted default_min_volume_voxels) default_spacing
      | None \<Rightarrow> Inr (calculate_volume_metrics
          (postprocess_mask predicted default_min_volume_voxels) md)) = Inr metrics"
    and r: "res = [''result_id'' \<mapsto> RStr (generate_result_id u),
            ''mask'' \<mapsto> RArray (postprocess_mask predicted default_min_volume_voxels),
            ''contours'' \<mapsto> RContours cont,
            ''metrics'' \<mapsto> RMetrics metrics,
            ''inference_time_ms'' \<mapsto>
               RInt (py_int ((inference_end clk - inference_start clk) * 1000)),
            ''total_time_ms'' \<mapsto> RInt (py_int ((end_time clk - start_time clk) * 1000)),
            ''output_paths'' \<mapsto> RPaths paths,
            ''metadata'' \<mapsto> RMeta md]"
    by blast
  have "res ''metrics'' = Some (RMetrics metrics)"
    unfolding r by simp
  moreover have "dom metrics = {''volume_ml'', ''volume_mm3'', ''voxel_count'', ''spacing''}"
    using m dom_calculate_volume_metrics by auto
  ultimately show "\<exists>m. res ''metrics'' = Some (RMetrics m) \<and>
      dom m = {''volume_ml'', ''volume_mm3'', ''voxel_count'', ''spacing''}"
    by blast
next
  assume "segment_from_numpy self clk v sp = Inr res2"
  from segment_from_numpy_Inr [OF this] obtain predicted cont where
    r: "res2 = [''mask'' \<mapsto> RArray (postprocess_mask predicted default_min_volume_voxels),
            ''contours'' \<mapsto> RContours cont,
            ''metrics'' \<mapsto> RMetrics (calculate_volume_metrics
               (postprocess_mask predicted default_min_volume_voxels) (spacing_only sp)),
            ''inference_time_ms'' \<mapsto> RInt (py_int ((end_time clk - start_time clk) * 1000))]"
    by blast
  have "res2 ''metrics'' = Some (RMetrics (calculate_volume_metrics
               (postprocess_mask predicted default_min_volume_voxels) (spacing_only sp)))"
    unfolding r by simp
  then show "\<exists>m. res2 ''metrics'' = Some (RMetrics m) \<and>
      dom m = {''volume_ml'', ''volume_mm3'', ''voxel_count'', ''spacing''}"
    using dom_calculate_volume_metrics by blast
qed


text \<open>The theorem on the concrete run, from the scan file and from an array.\<close>

theorem no_ground_truth_metrics_fields_witness:
  "\<exists>res fs' res2.
     segment_from_dicom example_pipeline example_world example_clock uuid_a
       [''scan.dcm''] None = (Inr res, fs') \<and>
     segment_from_numpy example_pipeline example_clock (Arr []) (2, 1, 1) = Inr res2 \<and>
     (\<exists>m. res ''metrics'' = Some (RMetrics m) \<and>
          dom m = {''volume_ml'', ''volume_mm3'', ''voxel_count'', ''spacing''}) \<and>
     (\<exists>m. res2 ''metrics'' = Some (RMetrics m) \<and>
          dom m = {''volume_ml'', ''volume_mm3'', ''voxel_count'', ''spacing''})"
proof -
  obtain res fs' where d: "segment_from_dicom example_pipeline example_world example_clock
      uuid_a [''scan.dcm''] None = (Inr res, fs')"
    using example_dicom_run by blast
  obtain res2 where n: "segment_from_numpy example_pipeline example_clock (Arr []) (2, 1, 1)
      = Inr res2"
    using example_numpy_run by blast
  note t = no_ground_truth_metrics_fields [of example_pipeline example_world example_clock
        uuid_a "[''scan.dcm'']" res fs' "Arr []" "(2, 1, 1)" res2]
  have a: "\<exists>m. res ''metrics'' = Some (RMetrics m) \<and>
          dom m = {''volume_ml'', ''volume_mm3'', ''voxel_count'', ''spacing''}"
    by (rule mp [OF conjunct1 [OF t] d])
  have b: "\<exists>m. res2 ''metrics'' = Some (RMetrics m) \<and>
          dom m = {''volume_ml'', ''volume_mm3'', ''voxel_count'', ''spacing''}"
    by (rule mp [OF conjunct2 [OF t] n])
  show ?thesis
    by (rule exI [of _ res], rule exI [of _ fs'], rule exI [of _ res2], intro conjI)
      (rule d, rule n, rule a, rule b)
qed


lemma round_half_even_of_int: "round_half_even (of_int k) = k"
  by (simp add: round_half_even_def)

lemma py_round_of_nat: "py_round (Fin (of_nat n)) 2 = Fin (of_nat n)"
proof -
  have "(of_nat n :: rat) * 10 ^ 2 = of_int (int n * 100)" by simp
  then have "round_half_even (of_nat n * 10 ^ 2) = int n * 100"
    by (simp only: round_half_even_of_int)
  then show ?thesis by simp
qed

lemma calculate_all_metrics_volume:
  assumes "calculate_all_metrics gt p sp = Inr m"
  shows "m ''volume_ml'' = calculate_volume p sp ''volume_ml''"
    and "m ''volume_mm3'' = calculate_volume p sp ''volume_mm3''"
    and "m ''voxel_count'' = calculate_volume p sp ''voxel_count''"
proof -
  obtain d where d: "calculate_dice gt p smooth_default = Inr d"
    using assms by (auto simp: calculate_all_metrics_def split: sum.splits)
  obtain i where i: "calculate_iou gt p smooth_default = Inr i"
    using assms d by (auto simp: calculate_all_metrics_def split: sum.splits)
  obtain se where se: "calculate_sensitivity gt p smooth_default = Inr se"
    using assms d i by (auto simp: calculate_all_metrics_def split: sum.splits)
  obtain sc where sc: "calculate_specificity gt p smooth_default = Inr sc"
    using assms d i se by (auto simp: calculate_all_metrics_def split: sum.splits)
  obtain pa where pa: "calculate_pixel_accuracy gt p = Inr pa"
    using assms d i se sc by (auto simp: calculate_all_metrics_def split: sum.splits)
  have v: "calculate_volume p sp ''volume_ml'' \<noteq> None"
    "calculate_volume p sp ''volume_mm3'' \<noteq> None"
    "calculate_volume p sp ''voxel_count'' \<noteq> None"
    by (simp_all add: calculate_volume_def Let_def)
  note e = assms [unfolded calculate_all_metrics_Inr [OF d i se sc pa, of sp]]
  from e have m: "m = (map_add [''dice'' \<mapsto> FloatV (py_round d 6),
                   ''iou'' \<mapsto> FloatV (py_round i 6),
                   ''sensitivity'' \<mapsto> FloatV (py_round se 6),
                   ''specificity'' \<mapsto> FloatV (py_round sc 6),
                   ''pixel_accuracy'' \<mapsto> FloatV (py_round pa 6)]
                  (calculate_volume p sp))
          (''meets_clinical_standards'' \<mapsto>
              BoolV (float_ge (py_round d 6) (9 / 10) \<and> float_ge (py_round i 6) (9 / 10)),
           ''quality_grade'' \<mapsto> StrV (grade_of (py_round d 6)))"
    by simp
  show "m ''volume_ml'' = calculate_volume p sp ''volume_ml''"
    using v(1) unfolding m by (auto simp: map_add_def split: option.splits)
  show "m ''volume_mm3'' = calculate_volume p sp ''volume_mm3''"
    using v(2) unfolding m by (auto simp: map_add_def split: option.splits)
  show "m ''voxel_count'' = calculate_volume p sp ''voxel_count''"
    using v(3) unfolding m by (auto simp: map_add_def split: option.splits)
qed

lemma round_half_even_close: "\<bar>of_int (round_half_even x) - x\<bar> \<le> (1 / 2 :: rat)"
proof -
  define r where "r = x - of_int \<lfloor>x\<rfloor>"
  have r: "0 \<le> r" "r < 1"
    unfolding r_def by linarith+
  have x: "x = of_int \<lfloor>x\<rfloor> + r"
    by (simp add: r_def)
  consider "r < 1 / 2" | "1 / 2 < r" | "r = 1 / 2" by linarith
  then show ?thesis
  proof cases
    case 1
    then have "round_half_even x = \<lfloor>x\<rfloor>"
      by (simp add: round_half_even_def Let_def r_def)
    then show ?thesis using r 1 by (simp add: r_def)
  next
    case 2
    then have "round_half_even x = \<lfloor>x\<rfloor> + 1"
      by (simp add: round_half_even_def Let_def r_def)
    then have "of_int (round_half_even x) - x = 1 - r"
      by (simp add: r_def)
    then show ?thesis using r 2 by simp
  next
    case 3
    then have "round_half_even x = \<lfloor>x\<rfloor> \<or> round_half_even x = \<lfloor>x\<rfloor> + 1"
      by (simp add: round_half_even_def Let_def r_def)
    then have "of_int (round_half_even x) - x = - r \<or> of_int (round_half_even x) - x = 1 - r"
      by (auto simp: r_def)
    then show ?thesis using 3 by auto
  qed
qed

lemma py_round_2_close:
  "\<exists>r. py_round (Fin q) 2 = Fin r \<and> \<bar>r - q\<bar> < 1 / 100"
proof -
  let ?r = "of_int (round_half_even (q * 10 ^ 2)) / (10 ^ 2 :: rat)"
  have "\<bar>of_int (round_half_even (q * 10 ^ 2)) - q * 10 ^ 2\<bar> \<le> (1 / 2 :: rat)"
    by (rule round_half_even_close)
  moreover have "?r - q = (of_int (round_half_even (q * 10 ^ 2)) - q * 10 ^ 2) / 10 ^ 2"
    by (simp add: field_simps)
  ultimately have "\<bar>?r - q\<bar> \<le> (1 / 2) / 10 ^ 2"
    by (simp only: abs_divide) (simp add: field_simps)
  then have "\<bar>?r - q\<bar> < 1 / 100" by simp
  moreover have "py_round (Fin q) 2 = Fin ?r" by simp
  ultimately show ?thesis by blast
qed


lemma calculate_volume_default:
  "calculate_volume p (1, 1, 1) ''voxel_count'' = Some (IntV (int (count_foreground p)))"
  "calculate_volume p (1, 1, 1) ''volume_mm3'' = Some (FloatV (Fin (of_nat (count_foreground p))))"
  "calculate_volume p (1, 1, 1) ''volume_ml''
     = Some (FloatV (py_round (Fin (of_nat (count_foreground p) / 1000)) 2))"
  by (simp_all add: calculate_volume_def Let_def py_round_of_nat del: py_round.simps)

text \<open>
  Claim C3. When \<open>segment_from_dicom\<close> is given a ground truth and returns, the metrics of
  the result are those of \<open>calculate_all_metrics(ground_truth, mask)\<close> with the default spacing
  \<open>(1.0, 1.0, 1.0)\<close>, whatever spacing the loaded metadata holds: the three volume entries
  are those \<open>calculate_volume\<close> gives for the mask and the spacing \<open>(1.0, 1.0, 1.0)\<close>;
  \<open>voxel_count\<close> is the number of foreground voxels of the mask, \<open>volume_mm3\<close> is that same
  number, and \<open>volume_ml\<close> is within 0.01 of that number over 1000.
\<close>

theorem ground_truth_metrics_use_default_spacing:
  assumes "segment_from_dicom self w clk u p (Some gt) = (Inr res, fs')"
  shows "\<exists>volume md msk m.
     load_dicom (preprocessor self) w p = Inr (volume, md) \<and>
     res ''metadata'' = Some (RMeta md) \<and>
     res ''mask'' = Some (RArray msk) \<and>
     calculate_all_metrics gt msk (1, 1, 1) = Inr m \<and>
     res ''metrics'' = Some (RMetrics m) \<and>
     m ''voxel_count'' = calculate_volume msk (1, 1, 1) ''voxel_count'' \<and>
     m ''volume_mm3'' = calculate_volume msk (1, 1, 1) ''volume_mm3'' \<and>
     m ''volume_ml'' = calculate_volume msk (1, 1, 1) ''volume_ml'' \<and>
     m ''voxel_count'' = Some (IntV (int (count_foreground msk))) \<and>
     m ''volume_mm3'' = Some (FloatV (Fin (of_nat (count_foreground msk)))) \<and>
     (\<exists>q. m ''volume_ml'' = Some (FloatV (Fin q)) \<and>
          \<bar>q - of_nat (count_foreground msk) / 1000\<bar> < 1 / 100)"
proof -
  from segment_from_dicom_Inr [OF assms] obtain volume md predicted m cont paths where
    l: "load_dicom (preprocessor self) w p = Inr (volume, md)"
    and c: "(case Some gt of
        Some g \<Rightarrow> calculate_all_metrics g
          (postprocess_mask predicted default_min_volume_voxels) default_spacing
      | None \<Rightarrow> Inr (calculate_volume_metrics
          (postprocess_mask predicted default_min_volume_voxels) md)) = Inr m"
    and r: "res = [''result_id'' \<mapsto> RStr (generate_result_id u),
            ''mask'' \<mapsto> RArray (postprocess_mask predicted default_min_volume_voxels),
            ''contours'' \<mapsto> RContours cont,
            ''metrics'' \<mapsto> RMetrics m,
            ''inference_time_ms'' \<mapsto>
               RInt (py_int ((inference_end clk - inference_start clk) * 1000)),
            ''total_time_ms'' \<mapsto> RInt (py_int ((end_time clk - start_time clk) * 1000)),
            ''output_paths'' \<mapsto> RPaths paths,
            ''metadata'' \<mapsto> RMeta md]"
    by blast
  let ?msk = "postprocess_mask predicted default_min_volume_voxels"
  let ?n = "count_foreground ?msk"
  have a: "calculate_all_metrics gt ?msk (1, 1, 1) = Inr m"
    using c by (simp add: default_spacing_def)
  have r1: "res ''metadata'' = Some (RMeta md)"
    and r2: "res ''mask'' = Some (RArray ?msk)"
    and r3: "res ''metrics'' = Some (RMetrics m)"
    unfolding r by simp_all
  note v = calculate_all_metrics_volume [OF a]
  have c1: "m ''voxel_count'' = Some (IntV (int ?n))"
    unfolding v by (rule calculate_volume_default)
  have c2: "m ''volume_mm3'' = Some (FloatV (Fin (of_nat ?n)))"
    unfolding v by (rule calculate_volume_default)
  obtain q where q: "py_round (Fin (of_nat ?n / 1000)) 2 = Fin q"
    and b: "\<bar>q - of_nat ?n / 1000\<bar> < 1 / 100"
    using py_round_2_close by blast
  have "m ''volume_ml'' = Some (FloatV (Fin q))"
    unfolding v calculate_volume_default q ..
  with b have c3: "\<exists>q. m ''volume_ml'' = Some (FloatV (Fin q)) \<and>
      \<bar>q - of_nat ?n / 1000\<bar> < 1 / 100"
    by blast
  show ?thesis
    by (rule exI [of _ volume], rule exI [of _ md], rule exI [of _ ?msk], rule exI [of _ m],
        intro conjI) (rule l, rule r1, rule r2, rule a, rule r3, rule v(3), rule v(2),
        rule v(1), rule c1, rule c2, rule c3)
qed

text \<open>
  The theorem on the concrete run: the scan's spacing is 5 x 0.7 x 0.7 mm, and the three
  voxels of the mask are reported as 3 cubic millimetres.
\<close>

theorem ground_truth_metrics_use_default_spacing_witness:
  "\<exists>res fs' md m.
     segment_from_dicom example_pipeline example_world example_clock uuid_a
       [''scan.dcm''] (Some gt_example) = (Inr res, fs') \<and>
     res ''metadata'' = Some (RMeta md) \<and>
     md_spacing md = Some (5, 7 / 10, 7 / 10) \<and>
     res ''metrics'' = Some (RMetrics m) \<and>
     m ''voxel_count'' = Some (IntV 3) \<and>
     m ''volume_mm3'' = Some (FloatV (Fin 3))"
proof -
  let ?run = "segment_from_dicom example_pipeline example_world example_clock uuid_a
       [''scan.dcm''] (Some gt_example)"
  obtain res fs' where d: "?run = (Inr res, fs')"
    using example_dicom_run_gt by blast
  from ground_truth_metrics_use_default_spacing [OF d] obtain volume md msk m where
    md: "res ''metadata'' = Some (RMeta md)"
    and msk: "res ''mask'' = Some (RArray msk)"
    and m: "res ''metrics'' = Some (RMetrics m)"
    and vc: "m ''voxel_count'' = Some (IntV (int (count_foreground msk)))"
    and mm3: "m ''volume_mm3'' = Some (FloatV (Fin (of_nat (count_foreground msk))))"
    by blast
  have "case projr (fst ?run) ''metadata'' of
      Some (RMeta md) \<Rightarrow> md_spacing md = Some (5, 7 / 10, 7 / 10) | _ \<Rightarrow> False"
    by code_simp
  then have sp: "md_spacing md = Some (5, 7 / 10, 7 / 10)"
    unfolding d using md by simp
  have "case projr (fst ?run) ''mask'' of
      Some (RArray msk) \<Rightarrow> count_foreground msk = 3 | _ \<Rightarrow> False"
    by code_simp
  then have c: "count_foreground msk = 3"
    unfolding d using msk by simp
  have vc': "m ''voxel_count'' = Some (IntV 3)" using vc c by simp
  have mm3': "m ''volume_mm3'' = Some (FloatV (Fin 3))" using mm3 c by simp
  show ?thesis
    by (rule exI [of _ res], rule exI [of _ fs'], rule exI [of _ md], rule exI [of _ m],
        intro conjI) (rule d, rule md, rule sp, rule m, rule vc', rule mm3')
qed

lemma dom_result_dicom:
  "dom [''result_id'' \<mapsto> a, ''mask'' \<mapsto> b, ''contours'' \<mapsto> c, ''metrics'' \<mapsto> d,
        ''inference_time_ms'' \<mapsto> e, ''total_time_ms'' \<mapsto> f, ''output_paths'' \<mapsto> g,
        ''metadata'' \<mapsto> (h :: resval)]
   = {''result_id'', ''mask'', ''contours'', ''metrics'', ''inference_time_ms'',
      ''total_time_ms'', ''output_paths'', ''metadata''}"
  by (simp add: insert_commute)

lemma dom_result_numpy:
  "dom [''mask'' \<mapsto> b, ''contours'' \<mapsto> c, ''metrics'' \<mapsto> d,
        ''inference_time_ms'' \<mapsto> (e :: resval)]
   = {''mask'', ''contours'', ''metrics'', ''inference_time_ms''}"
  by (simp add: insert_commute)


text \<open>
  Claim C5 as the specification states it fails: the result of \<open>segment_from_numpy\<close> has no
  \<open>result_id\<close>, no \<open>total_time_ms\<close>, no \<open>output_paths\<close> and no \<open>metadata\<close>.
\<close>

theorem segment_from_numpy_result_counterexample:
  "\<exists>res. segment_from_numpy example_pipeline example_clock (Arr []) (2, 1, 1) = Inr res \<and>
     res ''result_id'' = None \<and> res ''total_time_ms'' = None \<and>
     res ''output_paths'' = None \<and> res ''metadata'' = None"
proof -
  obtain res where r: "segment_from_numpy example_pipeline example_clock (Arr []) (2, 1, 1)
      = Inr res"
    using example_numpy_run by blast
  from segment_from_numpy_Inr [OF r] obtain predicted cont where
    e: "res = [''mask'' \<mapsto> RArray (postprocess_mask predicted default_min_volume_voxels),
            ''contours'' \<mapsto> RContours cont,
            ''metrics'' \<mapsto> RMetrics (calculate_volume_metrics
               (postprocess_mask predicted default_min_volume_voxels) (spacing_only (2, 1, 1))),
            ''inference_time_ms'' \<mapsto>
               RInt (py_int ((end_time example_clock - start_time example_clock) * 1000))]"
    by blast
  have "res ''result_id'' = None" "res ''total_time_ms'' = None"
    "res ''output_paths'' = None" "res ''metadata'' = None"
    unfolding e by simp_all
  with r show ?thesis by blast
qed

text \<open>
  Claim C5, amended. A \<open>segment_from_dicom\<close> call that returns gives a dictionary with
  exactly the eight keys \<open>result_id\<close>, \<open>mask\<close>, \<open>contours\<close> (the slice summary), \<open>metrics\<close>,
  \<open>inference_time_ms\<close>, \<open>total_time_ms\<close>, \<open>output_paths\<close> and \<open>metadata\<close>. A \<open>segment_from_numpy\<close>
  call that returns gives a dictionary with exactly the four keys \<open>mask\<close>, \<open>contours\<close>,
  \<open>metrics\<close> and \<open>inference_time_ms\<close>.
\<close>

theorem segment_result_fields:
  "(segment_from_dicom self w clk u p gt = (Inr res, fs') \<longrightarrow>
      dom res = {''result_id'', ''mask'', ''contours'', ''metrics'', ''inference_time_ms'',
                 ''total_time_ms'', ''output_paths'', ''metadata''} \<and>
      (\<exists>msk cont m ti tt paths md.
         res ''result_id'' = Some (RStr (generate_result_id u)) \<and>
         res ''mask'' = Some (RArray msk) \<and>
         res ''contours'' = Some (RContours cont) \<and>
         res ''metrics'' = Some (RMetrics m) \<and>
         res ''inference_time_ms'' = Some (RInt ti) \<and>
         res ''total_time_ms'' = Some (RInt tt) \<and>
         res ''output_paths'' = Some (RPaths paths) \<and>
         res ''metadata'' = Some (RMeta md))) \<and>
   (segment_from_numpy self clk v sp = Inr res2 \<longrightarrow>
      dom res2 = {''mask'', ''contours'', ''metrics'', ''inference_time_ms''} \<and>
      (\<exists>msk cont m ti.
         res2 ''mask'' = Some (RArray msk) \<and>
         res2 ''contours'' = Some (RContours cont) \<and>
         res2 ''metrics'' = Some (RMetrics m) \<and>
         res2 ''inference_time_ms'' = Some (RInt ti)))"
proof (intro conjI impI)
  assume a: "segment_from_dicom self w clk u p gt = (Inr res, fs')"
  from segment_from_dicom_Inr [OF a] obtain md predicted m cont paths where
    r: "res = [''result_id'' \<mapsto> RStr (generate_result_id u),
            ''mask'' \<mapsto> RArray (postprocess_mask predicted default_min_volume_voxels),
            ''contours'' \<mapsto> RContours cont,
            ''metrics'' \<mapsto> RMetrics m,
            ''inference_time_ms'' \<mapsto>
               RInt (py_int ((inference_end clk - inference_start clk) * 1000)),
            ''total_time_ms'' \<mapsto> RInt (py_int ((end_time clk - start_time clk) * 1000)),
            ''output_paths'' \<mapsto> RPaths paths,
            ''metadata'' \<mapsto> RMeta md]"
    by blast
  show "dom res = {''result_id'', ''mask'', ''contours'', ''metrics'', ''inference_time_ms'',
                 ''total_time_ms'', ''output_paths'', ''metadata''}"
    unfolding r by (rule dom_result_dicom)
  have "res ''result_id'' = Some (RStr (generate_result_id u))"
    "res ''mask'' = Some (RArray (postprocess_mask predicted default_min_volume_voxels))"
    "res ''contours'' = Some (RContours cont)"
    "res ''metrics'' = Some (RMetrics m)"
    "res ''inference_time_ms''
       = Some (RInt (py_int ((inference_end clk - inference_start clk) * 1000)))"
    "res ''total_time_ms'' = Some (RInt (py_int ((end_time clk - start_time clk) * 1000)))"
    "res ''output_paths'' = Some (RPaths paths)"
    "res ''metadata'' = Some (RMeta md)"
    unfolding r by simp_all
  then show "\<exists>msk cont m ti tt paths md.
         res ''result_id'' = Some (RStr (generate_result_id u)) \<and>
         res ''mask'' = Some (RArray msk) \<and>
         res ''contours'' = Some (RContours cont) \<and>
         res ''metrics'' = Some (RMetrics m) \<and>
         res ''inference_time_ms'' = Some (RInt ti) \<and>
         res ''total_time_ms'' = Some (RInt tt) \<and>
         res ''output_paths'' = Some (RPaths paths) \<and>
         res ''metadata'' = Some (RMeta md)"
    by (intro exI conjI)
next
  assume a: "segment_from_numpy self clk v sp = Inr res2"
  from segment_from_numpy_Inr [OF a] obtain predicted cont where
    r: "res2 = [''mask'' \<mapsto> RArray (postprocess_mask predicted default_min_volume_voxels),
            ''contours'' \<mapsto> RContours cont,
            ''metrics'' \<mapsto> RMetrics (calculate_volume_metrics
               (postprocess_mask predicted default_min_volume_voxels) (spacing_only sp)),
            ''inference_time_ms'' \<mapsto> RInt (py_int ((end_time clk - start_time clk) * 1000))]"
    by blast
  show "dom res2 = {''mask'', ''contours'', ''metrics'', ''inference_time_ms''}"
    unfolding r by (rule dom_result_numpy)
  have "res2 ''mask'' = Some (RArray (postprocess_mask predicted default_min_volume_voxels))"
    "res2 ''contours'' = Some (RContours cont)"
    "res2 ''metrics'' = Some (RMetrics (calculate_volume_metrics
               (postprocess_mask predicted default_min_volume_voxels) (spacing_only sp)))"
    "res2 ''inference_time_ms'' = Some (RInt (py_int ((end_time clk - start_time clk) * 1000)))"
    unfolding r by simp_all
  then show "\<exists>msk cont m ti.
         res2 ''mask'' = Some (RArray msk) \<and>
         res2 ''contours'' = Some (RContours cont) \<and>
         res2 ''metrics'' = Some (RMetrics m) \<and>
         res2 ''inference_time_ms'' = Some (RInt ti)"
    by (intro exI conjI)
qed

text \<open>The theorem on the concrete run, from the scan file and from an array.\<close>

theorem segment_result_fields_witness:
  "\<exists>res fs' res2.
     segment_from_dicom example_pipeline example_world example_clock uuid_a
       [''scan.dcm''] None = (Inr res, fs') \<and>
     segment_from_numpy example_pipeline example_clock (Arr []) (2, 1, 1) = Inr res2 \<and>
     dom res = {''result_id'', ''mask'', ''contours'', ''metrics'', ''inference_time_ms'',
                ''total_time_ms'', ''output_paths'', ''metadata''} \<and>
     res ''result_id'' = Some (RStr ''seg_0123456789ab'') \<and>
     dom res2 = {''mask'', ''contours'', ''metrics'', ''inference_time_ms''}"
proof -
  obtain res fs' where d: "segment_from_dicom example_pipeline example_world example_clock
      uuid_a [''scan.dcm''] None = (Inr res, fs')"
    using example_dicom_run by blast
  obtain res2 where n: "segment_from_numpy example_pipeline example_clock (Arr []) (2, 1, 1)
      = Inr res2"
    using example_numpy_run by blast
  note t = segment_result_fields [of example_pipeline example_world example_clock
        uuid_a "[''scan.dcm'']" None res fs' "Arr []" "(2, 1, 1)" res2]
  note t1 = mp [OF conjunct1 [OF t] d]
  note t2 = mp [OF conjunct2 [OF t] n]
  have a: "dom res = {''result_id'', ''mask'', ''contours'', ''metrics'', ''inference_time_ms'',
                ''total_time_ms'', ''output_paths'', ''metadata''}"
    by (rule conjunct1 [OF t1])
  have "res ''result_id'' = Some (RStr (generate_result_id uuid_a))"
    using conjunct2 [OF t1] by blast
  then have b: "res ''result_id'' = Some (RStr ''seg_0123456789ab'')"
    by (simp add: generate_result_id_def uuid_a_def)
  have c: "dom res2 = {''mask'', ''contours'', ''metrics'', ''inference_time_ms''}"
    by (rule conjunct1 [OF t2])
  show ?thesis
    by (rule exI [of _ res], rule exI [of _ fs'], rule exI [of _ res2], intro conjI)
      (rule d, rule n, rule a, rule b, rule c)
qed


section \<open>Properties of the loader\<close>

lemma find_dicom_files_none:
  assumes "\<forall>f\<in>set entries. \<forall>bytes. read_file fs f = Some bytes \<longrightarrow>
      dcmread bytes = Inl InvalidDicomError \<or> dcmread bytes = Inl AttributeError"
  shows "find_dicom_files dcmread fs entries acc = Inr acc"
  using assms
proof (induction entries)
  case Nil
  show ?case by simp
next
  case (Cons f rest)
  have IH: "find_dicom_files dcmread fs rest acc = Inr acc"
    by (rule Cons.IH) (use Cons.prems in simp)
  show ?case
  proof (cases "read_file fs f")
    case None
    then show ?thesis using IH by simp
  next
    case (Some bytes)
    then have "dcmread bytes = Inl InvalidDicomError \<or> dcmread bytes = Inl AttributeError"
      using Cons.prems by simp
    then show ?thesis using Some IH by auto
  qed
qed

text \<open>
  Claim C6 as the specification states it fails, twice. Where pydicom cannot be imported,
  loading an empty directory raises nothing and returns the mock volume and metadata.
  Where pydicom is present and the only file of a directory cannot be opened, no file
  parses, and the load raises that file's \<open>PermissionError\<close>, not \<open>ValueError\<close>.
\<close>

theorem load_empty_directory_counterexample:
  "is_dir (files example_world_no_pydicom) [''empty''] \<and>
   iterdir_sorted (files example_world_no_pydicom) [''empty''] = [] \<and>
   load_dicom default_preprocessor example_world_no_pydicom [''empty'']
     = Inr (mock_volume example_world_no_pydicom, create_mock_metadata default_preprocessor) \<and>
   is_dir (files locked_world) [''locked''] \<and>
   pydicom locked_world = Some locked_dcmread \<and>
   iterdir_sorted (files locked_world) [''locked''] = [[''locked'', ''slice.dcm'']] \<and>
   read_file (files locked_world) [''locked'', ''slice.dcm''] = Some (Bytes 9) \<and>
   locked_dcmread (Bytes 9) = Inl (ExternalError ''PermissionError'') \<and>
   load_dicom default_preprocessor locked_world [''locked'']
     = Inl (ExternalError ''PermissionError'') \<and>
   load_dicom default_preprocessor locked_world [''locked''] \<noteq> Inl ValueError"
proof -
  have e1: "is_dir (files example_world_no_pydicom) [''empty'']"
    by code_simp
  have e2: "iterdir_sorted (files example_world_no_pydicom) [''empty''] = []"
    by code_simp
  have e3: "\<not> is_file (files example_world_no_pydicom) [''empty'']"
    by code_simp
  have e4: "pydicom example_world_no_pydicom = None"
    by (simp add: example_world_no_pydicom_def)
  have e5: "load_dicom default_preprocessor example_world_no_pydicom [''empty'']
     = Inr (mock_volume example_world_no_pydicom, create_mock_metadata default_preprocessor)"
    using e1 e3 e4 by (simp add: load_dicom_def load_dicom_series_def except_import_error_def)
  have l1: "is_dir (files locked_world) [''locked'']"
    by code_simp
  have l2: "pydicom locked_world = Some locked_dcmread"
    by (simp add: locked_world_def)
  have l3: "iterdir_sorted (files locked_world) [''locked''] = [[''locked'', ''slice.dcm'']]"
    by code_simp
  have l4: "read_file (files locked_world) [''locked'', ''slice.dcm''] = Some (Bytes 9)"
    by (simp add: read_file_def locked_world_def)
  have l5: "locked_dcmread (Bytes 9) = Inl (ExternalError ''PermissionError'')"
    by (simp add: locked_dcmread_def)
  have l6: "\<not> is_file (files locked_world) [''locked'']"
    by code_simp
  have l7: "load_dicom default_preprocessor locked_world [''locked'']
     = Inl (ExternalError ''PermissionError'')"
    using l1 l6
    by (simp add: load_dicom_def load_dicom_series_def except_import_error_def l2 l3 l4 l5)
  have l8: "load_dicom default_preprocessor locked_world [''locked''] \<noteq> Inl ValueError"
    unfolding l7 by simp
  show ?thesis
    by (intro conjI e1 e2 e5 l1 l2 l3 l4 l5 l7 l8)
qed

text \<open>
  Claim C6, amended. \<open>load_dicom\<close> raises \<open>FileNotFoundError\<close> whenever the path is neither a
  file nor a directory. It raises \<open>ValueError\<close> whenever pydicom can be imported and the path
  is a directory in which \<open>dcmread\<close> rejects every regular file with \<open>InvalidDicomError\<close> or
  \<open>AttributeError\<close>, the two exceptions the loader skips. In both cases the call returns no
  volume. Whenever pydicom cannot be imported, a path that is a file or a directory is
  answered with the mock volume and metadata.
\<close>

theorem load_dicom_failures:
  "(\<not> is_file (files w) p \<and> \<not> is_dir (files w) p \<longrightarrow>
      load_dicom self w p = Inl FileNotFoundError) \<and>
   (\<not> is_file (files w) p \<and> is_dir (files w) p \<and> pydicom w = Some dcmread \<and>
    (\<forall>f\<in>set (iterdir_sorted (files w) p). \<forall>bytes. read_file (files w) f = Some bytes \<longrightarrow>
        dcmread bytes = Inl InvalidDicomError \<or> dcmread bytes = Inl AttributeError) \<longrightarrow>
      load_dicom self w p = Inl ValueError) \<and>
   ((is_file (files w) p \<or> is_dir (files w) p) \<and> pydicom w = None \<longrightarrow>
      load_dicom self w p = Inr (mock_volume w, create_mock_metadata self))"
proof (intro conjI impI)
  assume "\<not> is_file (files w) p \<and> \<not> is_dir (files w) p"
  then show "load_dicom self w p = Inl FileNotFoundError"
    by (simp add: load_dicom_def)
next
  assume a: "\<not> is_file (files w) p \<and> is_dir (files w) p \<and> pydicom w = Some dcmread \<and>
    (\<forall>f\<in>set (iterdir_sorted (files w) p). \<forall>bytes. read_file (files w) f = Some bytes \<longrightarrow>
        dcmread bytes = Inl InvalidDicomError \<or> dcmread bytes = Inl AttributeError)"
  then have f: "find_dicom_files dcmread (files w) (iterdir_sorted (files w) p) [] = Inr []"
    by (intro find_dicom_files_none) simp
  from a have "load_dicom self w p = load_dicom_series self w p"
    by (simp add: load_dicom_def)
  also have "\<dots> = Inl ValueError"
    using a by (simp add: load_dicom_series_def f except_import_error_def)
  finally show "load_dicom self w p = Inl ValueError" .
next
  assume a: "(is_file (files w) p \<or> is_dir (files w) p) \<and> pydicom w = None"
  then have n: "pydicom w = None" by simp
  have s: "load_single_dicom self w p = Inr (mock_volume w, create_mock_metadata self)"
    by (simp add: load_single_dicom_def n except_import_error_def)
  have d: "load_dicom_series self w p = Inr (mock_volume w, create_mock_metadata self)"
    by (simp add: load_dicom_series_def n except_import_error_def)
  show "load_dicom self w p = Inr (mock_volume w, create_mock_metadata self)"
    using a by (auto simp: load_dicom_def s d)
qed

text \<open>
  The theorem on the example files: a path that does not exist; the directory that holds
  one text file, which \<open>dcmread\<close> rejects, and one subdirectory; and the same directory on
  a machine without pydicom.
\<close>

theorem load_dicom_failures_witness:
  "\<not> is_file (files example_world) [''nothing''] \<and>
   \<not> is_dir (files example_world) [''nothing''] \<and>
   load_dicom default_preprocessor example_world [''nothing''] = Inl FileNotFoundError \<and>
   \<not> is_file (files example_world) [''mixed''] \<and>
   is_dir (files example_world) [''mixed''] \<and>
   pydicom example_world = Some example_dcmread \<and>
   iterdir_sorted (files example_world) [''mixed'']
     = [[''mixed'', ''notes.txt''], [''mixed'', ''sub'']] \<and>
   load_dicom default_preprocessor example_world [''mixed''] = Inl ValueError \<and>
   is_dir (files example_world_no_pydicom) [''mixed''] \<and>
   pydicom example_world_no_pydicom = None \<and>
   load_dicom default_preprocessor example_world_no_pydicom [''mixed'']
     = Inr (mock_volume example_world_no_pydicom, create_mock_metadata default_preprocessor)"
proof -
  have n: "\<not> is_file (files example_world) [''nothing''] \<and>
      \<not> is_dir (files example_world) [''nothing'']"
    by code_simp
  have m1: "\<not> is_file (files example_world) [''mixed'']"
    and m2: "is_dir (files example_world) [''mixed'']"
    by code_simp+
  have py: "pydicom example_world = Some example_dcmread"
    by (simp add: example_world_def)
  have it: "iterdir_sorted (files example_world) [''mixed'']
      = [[''mixed'', ''notes.txt''], [''mixed'', ''sub'']]"
    by code_simp
  have r1: "read_file (files example_world) [''mixed'', ''notes.txt''] = Some (Bytes 7)"
    by (simp add: read_file_def example_world_def example_files_def)
  have r2: "read_file (files example_world) [''mixed'', ''sub''] = None"
    by (simp add: read_file_def example_world_def example_files_def)
  have rej: "\<forall>f\<in>set (iterdir_sorted (files example_world) [''mixed'']).
      \<forall>bytes. read_file (files example_world) f = Some bytes \<longrightarrow>
        example_dcmread bytes = Inl InvalidDicomError \<or>
        example_dcmread bytes = Inl AttributeError"
    unfolding it by (simp add: r1 r2 example_dcmread_def)
  have q1: "is_dir (files example_world_no_pydicom) [''mixed'']"
    by code_simp
  have q2: "pydicom example_world_no_pydicom = None"
    by (simp add: example_world_no_pydicom_def)
  note t = load_dicom_failures [where w = example_world and p = "[''nothing'']"
      and self = default_preprocessor and dcmread = example_dcmread]
  note t' = load_dicom_failures [where w = example_world and p = "[''mixed'']"
      and self = default_preprocessor and dcmread = example_dcmread]
  note t'' = load_dicom_failures [where w = example_world_no_pydicom and p = "[''mixed'']"
      and self = default_preprocessor and dcmread = example_dcmread]
  have a: "load_dicom default_preprocessor example_world [''nothing''] = Inl FileNotFoundError"
    by (rule mp [OF conjunct1 [OF t] n])
  have b: "load_dicom default_preprocessor example_world [''mixed''] = Inl ValueError"
    by (rule mp [OF conjunct1 [OF conjunct2 [OF t']]]) (intro conjI m1 m2 py rej)
  have c: "load_dicom default_preprocessor example_world_no_pydicom [''mixed'']
     = Inr (mock_volume example_world_no_pydicom, create_mock_metadata default_preprocessor)"
    by (rule mp [OF conjunct2 [OF conjunct2 [OF t'']]]) (intro conjI disjI2 q1 q2)
  show ?thesis
    by (intro conjI conjunct1 [OF n] conjunct2 [OF n] a m1 m2 py it b q1 q2 c)
qed

end
